theory Spec2Isabelle
  imports Complex_Main "HOL-Library.Sublist" "HOL-Library.Multiset"
begin

section \<open>Digital Kidney: the simulation engine of \<open>src/lib/kidney-simulation.ts\<close>\<close>

text \<open>
  The model follows the engine with drug interactions, treatment ranking and time
  projection (the first module of the source file). The engine is a set of pure
  TypeScript functions over \<open>number\<close>s, strings and arrays. A \<open>number\<close> is
  modelled as a \<^typ>\<open>real\<close>: the model is the engine with exact arithmetic on
  finite values (no NaN, no infinities, no rounding error of the double format).
  Strings are \<^typ>\<open>string\<close> (lists of 8-bit characters), arrays are lists, and
  \<open>string | null\<close> is a \<^typ>\<open>string option\<close>.
\<close>

subsection \<open>Helpers\<close>

text \<open>\<open>Math.round\<close>: the nearest integer, a tie going up.\<close>

definition jsRound :: "real \<Rightarrow> real" where
  "jsRound v = of_int \<lfloor>v + 1 / 2\<rfloor>"

text \<open>\<open>clamp(v, min, max) = Math.min(Math.max(v, min), max)\<close>\<close>

definition clamp :: "real \<Rightarrow> real \<Rightarrow> real \<Rightarrow> real" where
  "clamp v lo hi = min (max v lo) hi"

definition round1 :: "real \<Rightarrow> real" where
  "round1 v = jsRound (v * 10) / 10"

definition round2 :: "real \<Rightarrow> real" where
  "round2 v = jsRound (v * 100) / 100"

subsection \<open>Strings\<close>

text \<open>
  \<open>String.prototype.toLowerCase\<close> on the ASCII letters; every other character is
  kept as it is.
\<close>

definition lowerChar :: "char \<Rightarrow> char" where
  "lowerChar c =
     (let n = (of_char c :: nat) in if 65 \<le> n \<and> n \<le> 90 then char_of (n + 32) else c)"

definition toLowerCase :: "string \<Rightarrow> string" where
  "toLowerCase s = map lowerChar s"

text \<open>\<open>s.includes(d)\<close>: \<open>d\<close> occurs in \<open>s\<close> as a contiguous substring.\<close>

fun includes_str :: "string \<Rightarrow> string \<Rightarrow> bool" where
  "includes_str [] d = (d = [])"
| "includes_str (c # cs) d = (prefix d (c # cs) \<or> includes_str cs d)"

subsection \<open>The drug lexicon and the classifier\<close>

text \<open>
  \<open>MEDICINE_CATEGORIES\<close>, in the order of its keys (\<open>Object.entries\<close> walks the
  keys in insertion order).
\<close>

definition MEDICINE_CATEGORIES :: "(string \<times> string list) list" where
  "MEDICINE_CATEGORIES =
    [(''ace'', [''enalapril'', ''lisinopril'', ''ramipril'', ''captopril'', ''perindopril'',
               ''benazepril'', ''fosinopril'', ''quinapril'', ''trandolapril'']),
     (''arb'', [''losartan'', ''valsartan'', ''telmisartan'', ''irbesartan'', ''candesartan'',
               ''olmesartan'', ''azilsartan'']),
     (''ccb'', [''amlodipine'', ''nifedipine'', ''felodipine'', ''diltiazem'', ''verapamil'',
               ''nicardipine'']),
     (''diuretic'', [''furosemide'', ''hydrochlorothiazide'', ''spironolactone'', ''bumetanide'',
               ''torsemide'', ''amiloride'', ''chlorthalidone'', ''indapamide'']),
     (''beta_blocker'', [''metoprolol'', ''atenolol'', ''carvedilol'', ''bisoprolol'',
               ''propranolol'', ''nebivolol'']),
     (''statin'', [''atorvastatin'', ''rosuvastatin'', ''simvastatin'', ''pravastatin'',
               ''fluvastatin'']),
     (''xanthine_oxidase'', [''allopurinol'', ''febuxostat'']),
     (''sglt2'', [''empagliflozin'', ''dapagliflozin'', ''canagliflozin'']),
     (''dpp4'', [''sitagliptin'', ''linagliptin'', ''saxagliptin'', ''alogliptin'']),
     (''glp1'', [''semaglutide'', ''liraglutide'', ''dulaglutide'', ''exenatide'']),
     (''nsaid'', [''ibuprofen'', ''naproxen'', ''diclofenac'', ''celecoxib'', ''indomethacin'']),
     (''anticoagulant'', [''warfarin'', ''apixaban'', ''rivaroxaban'', ''dabigatran'']),
     (''phosphate_binder'', [''sevelamer'', ''lanthanum'', ''calcium acetate'',
               ''calcium carbonate'']),
     (''esa'', [''epoetin'', ''darbepoetin'']),
     (''iron'', [''ferric carboxymaltose'', ''iron sucrose'', ''ferrous sulfate''])]"

text \<open>
  The lexicon pass of \<open>getMedicineCategory\<close>: the first category (in key order) one of
  whose drug names occurs in the lower-cased medicine name.
\<close>

fun lexiconCategory :: "(string \<times> string list) list \<Rightarrow> string \<Rightarrow> string option" where
  "lexiconCategory [] lower = None"
| "lexiconCategory ((cat, drugs) # rest) lower =
     (if list_ex (\<lambda>d. includes_str lower d) drugs then Some cat
      else lexiconCategory rest lower)"

definition getMedicineCategory :: "string \<Rightarrow> string option" where
  "getMedicineCategory medicine =
     (let lower = toLowerCase medicine in
      case lexiconCategory MEDICINE_CATEGORIES lower of
        Some cat \<Rightarrow> Some cat
      | None \<Rightarrow>
          if includes_str lower ''ace'' \<and> \<not> includes_str lower ''acetate'' then Some ''ace''
          else if includes_str lower ''arb'' then Some ''arb''
          else if includes_str lower ''diuretic'' then Some ''diuretic''
          else if includes_str lower ''metformin'' then Some ''sglt2''
          else if includes_str lower ''sodium bicarbonate'' then Some ''alkalizer''
          else None)"

text \<open>No drug name of the lexicon occurs in the lower-cased name.\<close>

definition inLexicon :: "string \<Rightarrow> bool" where
  "inLexicon lower =
     list_ex (\<lambda>d. includes_str lower d) (concat (map snd MEDICINE_CATEGORIES))"

subsection \<open>The data model\<close>

datatype Gender = Male | Female

datatype SmokingStatus = Never | Former | Current

text \<open>The string a \<open>gender\<close> value is at run time.\<close>

fun genderString :: "Gender \<Rightarrow> string" where
  "genderString Male = ''male''"
| "genderString Female = ''female''"

text \<open>
  \<open>PatientData\<close>. The fields \<open>uricAcid\<close> and \<open>bun\<close> are written \<open>patUricAcid\<close>
  and \<open>patBun\<close>: \<open>KidneyMetrics\<close> has fields of the same names.
\<close>

record PatientData =
  name :: string
  age :: real
  gender :: Gender
  weight :: real
  height :: real
  systolicBP :: real
  diastolicBP :: real
  glucose :: real
  patUricAcid :: real
  hydrationLevel :: real
  serumCreatinine :: real
  patBun :: real
  serumCalcium :: real
  serumPotassium :: real
  serumSodium :: real
  serumPhosphorus :: real
  serumAlbumin :: real
  hemoglobin :: real
  hba1c :: real
  cholesterol :: real
  triglycerides :: real
  urineProtein :: real
  urineAlbumin :: real
  egfrCysC :: real
  parathyroidHormone :: real
  vitaminD :: real
  cReactiveProtein :: real
  existingConditions :: "string list"
  currentMedicines :: "string list"
  proteinIntake :: real
  saltIntake :: real
  waterIntake :: real
  exerciseLevel :: real
  smokingStatus :: SmokingStatus
  alcoholUnitsPerWeek :: real

record RiskHeatmapData =
  glomerular :: real
  tubular :: real
  vascular :: real
  interstitial :: real
  collecting :: real
  cortex :: real
  medulla :: real

record KidneyMetrics =
  gfr :: real
  gfrCategory :: string
  ckdStage :: real
  creatinine :: real
  uricAcid :: real
  bun :: real
  bunCreatinineRatio :: real
  stoneRisk :: real
  stressIndex :: real
  ckdProgressionRisk :: real
  cardiovascularRisk :: real
  akirisk :: real
  infectionRisk :: real
  efficiency :: real
  kidneyAge :: real
  filtrationRate :: real
  tubularReabsorption :: real
  electrolyteBalance :: real
  acidBaseBalance :: real
  mineralBoneScore :: real
  anemiaScore :: real
  inflammationScore :: real
  proteinuriaLevel :: real
  albuminuriaCategory :: string
  kidneyPerfusionIndex :: real
  nephronHealth :: real
  interstitialHealth :: real
  vascularHealth :: real
  overallHealthScore :: real
  riskHeatmap :: RiskHeatmapData

text \<open>\<open>Treatment\<close>; its field \<open>id\<close> is written \<open>ident\<close>.\<close>

record Treatment =
  ident :: string
  medicine :: string
  dosage :: string
  frequency :: string
  tablets :: real
  category :: "string option"

datatype Severity = Mild | Moderate | Severe

record DrugInteraction =
  drug1 :: string
  drug2 :: string
  severity :: Severity
  description :: string
  effect :: string

text \<open>
  The \<open>adjustments\<close> argument of \<open>simulateTreatment\<close>; its fields carry the prefix
  \<open>adj\<close>, \<open>PatientData\<close> having fields of the same names.
\<close>

record Adjustments =
  adjHydration :: real
  adjProteinIntake :: real
  adjSaltIntake :: real
  adjWaterIntake :: real
  adjExerciseLevel :: real

subsection \<open>GFR and staging\<close>

text \<open>
  \<open>calculateGFR\<close> (CKD-EPI 2021). \<open>Math.pow(x, y)\<close> is \<open>x powr y\<close>, which is the
  real power for a positive base \<open>x\<close>; the bases here are positive when
  \<open>creatinine > 0\<close>. The parameter \<open>weight\<close> is not used by the source.
\<close>

definition calculateGFR :: "real \<Rightarrow> string \<Rightarrow> real \<Rightarrow> real \<Rightarrow> real" where
  "calculateGFR age' gender' creatinine' weight' =
     (let kappa = (if gender' = ''female'' then 0.7 else 0.9);
          alpha = (if gender' = ''female'' then - 0.241 else - 0.302);
          ratio = creatinine' / kappa;
          minR = min ratio 1;
          maxR = max ratio 1;
          g = 142 * (minR powr alpha) * (maxR powr (- 1.2)) * (0.9938 powr age');
          g' = (if gender' = ''female'' then g * 1.012 else g)
      in jsRound (min (max g' 3) 160 * 10) / 10)"

definition getGFRCategory :: "real \<Rightarrow> string" where
  "getGFRCategory g =
     (if g \<ge> 90 then ''G1 - Normal or High''
      else if g \<ge> 60 then ''G2 - Mildly decreased''
      else if g \<ge> 45 then ''G3a - Mild-moderate decrease''
      else if g \<ge> 30 then ''G3b - Moderate-severe decrease''
      else if g \<ge> 15 then ''G4 - Severely decreased''
      else ''G5 - Kidney failure'')"

definition getCKDStage :: "real \<Rightarrow> real" where
  "getCKDStage g =
     (if g \<ge> 90 then 1
      else if g \<ge> 60 then 2
      else if g \<ge> 45 then 3
      else if g \<ge> 30 then 3
      else if g \<ge> 15 then 4
      else 5)"

definition getAlbuminuriaCategory :: "real \<Rightarrow> string" where
  "getAlbuminuriaCategory albumin =
     (if albumin < 30 then ''A1 - Normal''
      else if albumin < 300 then ''A2 - Moderately increased''
      else ''A3 - Severely increased'')"

subsection \<open>Baseline metrics\<close>

text \<open>
  \<open>calculateBaselineMetrics\<close> computes each score in a local variable that starts
  from a constant and is changed by a chain of \<open>if (...) x += ...\<close> statements. Each
  chain is a definition of its own here, named after the local variable, with the
  statements as the summands in the order of the source; the value is the one the
  variable holds after the chain (after its \<open>clamp\<close>, where the source clamps it in
  place).
\<close>

definition hasCondition :: "PatientData \<Rightarrow> string \<Rightarrow> bool" where
  "hasCondition p c = (c \<in> set (existingConditions p))"

definition stoneRiskOf :: "PatientData \<Rightarrow> real" where
  "stoneRiskOf p =
     clamp (8
       + (if patUricAcid p > 6 then (patUricAcid p - 6) * 12 else 0)
       + (if serumCalcium p > 10 then (serumCalcium p - 10) * 15 else 0)
       + (if serumPhosphorus p > 4.5 then (serumPhosphorus p - 4.5) * 8 else 0)
       + (if hydrationLevel p < 5 then (5 - hydrationLevel p) * 8 else 0)
       + (if waterIntake p < 2 then (2 - waterIntake p) * 10 else 0)
       + (if hasCondition p ''kidney_stones'' then 20 else 0)
       + (if hasCondition p ''gout'' then 10 else 0)
       + (if urineProtein p > 150 then 5 else 0)) 0 100"

definition stressIndexOf :: "PatientData \<Rightarrow> real" where
  "stressIndexOf p =
     clamp (15
       + (if systolicBP p > 130 then (systolicBP p - 130) * 0.5 else 0)
       + (if diastolicBP p > 85 then (diastolicBP p - 85) * 0.4 else 0)
       + (if glucose p > 100 then (glucose p - 100) * 0.3 else 0)
       + (if hba1c p > 6.5 then (hba1c p - 6.5) * 5 else 0)
       + (if hasCondition p ''diabetes'' then 15 else 0)
       + (if hasCondition p ''hypertension'' then 12 else 0)
       + (if saltIntake p > 5 then (saltIntake p - 5) * 4 else 0)
       + (if cReactiveProtein p > 3 then (cReactiveProtein p - 3) * 2 else 0)
       + (if smokingStatus p = Current then 10 else 0)
       + (if smokingStatus p = Former then 3 else 0)
       + (if alcoholUnitsPerWeek p > 14 then (alcoholUnitsPerWeek p - 14) * 0.5 else 0)
       + (if proteinIntake p > 80 then (proteinIntake p - 80) * 0.2 else 0)
       + (if cholesterol p > 200 then (cholesterol p - 200) * 0.05 else 0)) 0 100"

definition ckdProgressionOf :: "real \<Rightarrow> PatientData \<Rightarrow> real" where
  "ckdProgressionOf g p =
     clamp (10
       + (if g < 60 then (60 - g) * 0.8 else 0)
       + (if urineAlbumin p > 30 then ln (urineAlbumin p / 30) * 10 else 0)
       + (if urineProtein p > 500 then 15 else 0)
       + (if hasCondition p ''diabetes'' then 12 else 0)
       + (if hasCondition p ''hypertension'' then 8 else 0)
       + (if hasCondition p ''ckd'' then 15 else 0)
       + (if hba1c p > 7 then (hba1c p - 7) * 4 else 0)
       + (if systolicBP p > 140 then 8 else 0)) 0 100"

definition cvRiskOf :: "real \<Rightarrow> PatientData \<Rightarrow> real" where
  "cvRiskOf g p =
     clamp (8
       + (if systolicBP p > 140 then (systolicBP p - 140) * 0.6 else 0)
       + (if cholesterol p > 200 then (cholesterol p - 200) * 0.1 else 0)
       + (if triglycerides p > 150 then (triglycerides p - 150) * 0.05 else 0)
       + (if g < 60 then (60 - g) * 0.5 else 0)
       + (if hasCondition p ''heart_disease'' then 20 else 0)
       + (if hasCondition p ''diabetes'' then 10 else 0)
       + (if smokingStatus p = Current then 12 else 0)
       + (if age p > 55 then (age p - 55) * 0.5 else 0)) 0 100"

text \<open>
  \<open>hasNSAID\<close>: some current medicine contains, lower-cased, a drug name of the
  \<open>nsaid\<close> entry of the lexicon (\<open>MEDICINE_CATEGORIES.nsaid?.some(...)\<close>).
\<close>

definition hasNSAID :: "PatientData \<Rightarrow> bool" where
  "hasNSAID p =
     list_ex (\<lambda>m. case map_of MEDICINE_CATEGORIES ''nsaid'' of
                     None \<Rightarrow> False
                   | Some ns \<Rightarrow> list_ex (\<lambda>n. includes_str (toLowerCase m) n) ns)
       (currentMedicines p)"

definition akiriskOf :: "real \<Rightarrow> PatientData \<Rightarrow> real" where
  "akiriskOf g p =
     clamp (5
       + (if g < 45 then 15 else 0)
       + (if age p > 65 then 8 else 0)
       + (if hasCondition p ''diabetes'' then 8 else 0)
       + (if hasCondition p ''heart_disease'' then 10 else 0)
       + (if hydrationLevel p < 3 then 15 else 0)
       + (if serumCreatinine p > 1.5 then (serumCreatinine p - 1.5) * 10 else 0)
       + (if hasNSAID p then 12 else 0)) 0 100"

definition infectionRiskOf :: "real \<Rightarrow> PatientData \<Rightarrow> real" where
  "infectionRiskOf g p =
     clamp (5
       + (if g < 30 then 15 else 0)
       + (if hasCondition p ''diabetes'' then 10 else 0)
       + (if hasCondition p ''uti'' then 15 else 0)
       + (if age p > 70 then 8 else 0)
       + (if serumAlbumin p < 3.5 then (3.5 - serumAlbumin p) * 10 else 0)) 0 100"

definition efficiencyOf :: "real \<Rightarrow> real" where
  "efficiencyOf g = max (min ((g / 120) * 100) 100) 5"

text \<open>The electrolyte balance before its clamp (the source clamps it in the result).\<close>

definition electrolyteBalanceOf :: "PatientData \<Rightarrow> real" where
  "electrolyteBalanceOf p =
     90
       - (if serumPotassium p < 3.5 \<or> serumPotassium p > 5.1 then 25
          else if serumPotassium p < 3.8 \<or> serumPotassium p > 4.8 then 8 else 0)
       - (if serumSodium p < 136 \<or> serumSodium p > 146 then 20
          else if serumSodium p < 138 \<or> serumSodium p > 144 then 8 else 0)
       - (if serumCalcium p < 8.8 \<or> serumCalcium p > 10.6 then 15 else 0)
       - (if serumPhosphorus p < 2.5 \<or> serumPhosphorus p > 4.5 then 12 else 0)"

definition mineralBoneScoreOf :: "PatientData \<Rightarrow> real" where
  "mineralBoneScoreOf p =
     clamp (85
       - (if parathyroidHormone p > 65 then min ((parathyroidHormone p - 65) * 0.3) 30 else 0)
       - (if vitaminD p < 30 then (30 - vitaminD p) * 0.8 else 0)
       - (if serumCalcium p < 8.5 \<or> serumCalcium p > 10.5 then 15 else 0)
       - (if serumPhosphorus p > 4.5 then (serumPhosphorus p - 4.5) * 8 else 0)) 0 100"

definition anemiaScoreOf :: "real \<Rightarrow> PatientData \<Rightarrow> real" where
  "anemiaScoreOf g p =
     (let hbLow = (if gender p = Female then 12 else 13) in
      clamp (90
       - (if hemoglobin p < hbLow then (hbLow - hemoglobin p) * 15 else 0)
       - (if g < 45 then 10 else 0)
       - (if serumAlbumin p < 3.5 then 8 else 0)) 0 100)"

definition inflammationScoreOf :: "PatientData \<Rightarrow> real" where
  "inflammationScoreOf p =
     clamp (90
       - (if cReactiveProtein p > 1 then min (cReactiveProtein p * 5) 40 else 0)
       - (if serumAlbumin p < 3.5 then 10 else 0)) 0 100"

definition kidneyPerfusionIndexOf :: "real \<Rightarrow> PatientData \<Rightarrow> real" where
  "kidneyPerfusionIndexOf g p =
     clamp (85
       - (if systolicBP p > 140 then (systolicBP p - 140) * 0.3 else 0)
       - (if systolicBP p < 90 then (90 - systolicBP p) * 0.5 else 0)
       - (if hasCondition p ''heart_disease'' then 12 else 0)
       - (if g < 60 then (60 - g) * 0.3 else 0)) 0 100"

definition interstitialHealthOf :: "PatientData \<Rightarrow> real" where
  "interstitialHealthOf p =
     clamp (85
       - (if urineProtein p > 150 then min (urineProtein p * 0.02) 25 else 0)
       - (if cReactiveProtein p > 3 then 10 else 0)
       - (if hasCondition p ''uti'' then 10 else 0)) 0 100"

definition vascularHealthOf :: "PatientData \<Rightarrow> real" where
  "vascularHealthOf p =
     clamp (85
       - (if systolicBP p > 130 then (systolicBP p - 130) * 0.4 else 0)
       - (if cholesterol p > 200 then (cholesterol p - 200) * 0.08 else 0)
       - (if hasCondition p ''diabetes'' then 10 else 0)
       - (if smokingStatus p = Current then 12 else 0)) 0 100"

definition calculateBaselineMetrics :: "PatientData \<Rightarrow> KidneyMetrics" where
  "calculateBaselineMetrics p =
     (let g = calculateGFR (age p) (genderString (gender p)) (serumCreatinine p) (weight p);
          bunCreatinineRatio' = jsRound ((patBun p / serumCreatinine p) * 10) / 10;
          stoneRisk' = stoneRiskOf p;
          stressIndex' = stressIndexOf p;
          ckdProgression = ckdProgressionOf g p;
          cvRisk = cvRiskOf g p;
          akirisk' = akiriskOf g p;
          infectionRisk' = infectionRiskOf g p;
          efficiency' = efficiencyOf g;
          kidneyAge' = jsRound (age p + (100 - efficiency') * 0.4 + stressIndex' * 0.1);
          electrolyteBalance' = electrolyteBalanceOf p;
          mineralBoneScore' = mineralBoneScoreOf p;
          anemiaScore' = anemiaScoreOf g p;
          inflammationScore' = inflammationScoreOf p;
          kidneyPerfusionIndex' = kidneyPerfusionIndexOf g p;
          nephronHealth' = clamp (jsRound (efficiency' * 0.7 + (100 - stressIndex') * 0.3)) 0 100;
          interstitialHealth' = interstitialHealthOf p;
          vascularHealth' = vascularHealthOf p;
          riskHeatmap' = \<lparr>
            glomerular = clamp (100 - (100 - efficiency') * 1.2) 0 100,
            tubular = clamp (100 - stressIndex' * 0.8) 0 100,
            vascular = vascularHealth',
            interstitial = interstitialHealth',
            collecting = clamp (90 - stoneRisk' * 0.3) 0 100,
            cortex = clamp (nephronHealth' * 0.9 + kidneyPerfusionIndex' * 0.1) 0 100,
            medulla = clamp (85 - stressIndex' * 0.3 - stoneRisk' * 0.2) 0 100 \<rparr>;
          overallHealthScore' = jsRound (
            efficiency' * 0.25 +
            (100 - stressIndex') * 0.15 +
            (100 - stoneRisk') * 0.05 +
            (100 - ckdProgression) * 0.15 +
            electrolyteBalance' * 0.1 +
            nephronHealth' * 0.1 +
            vascularHealth' * 0.1 +
            mineralBoneScore' * 0.05 +
            anemiaScore' * 0.05)
      in \<lparr>
        gfr = g,
        gfrCategory = getGFRCategory g,
        ckdStage = getCKDStage g,
        creatinine = serumCreatinine p,
        uricAcid = patUricAcid p,
        bun = patBun p,
        bunCreatinineRatio = bunCreatinineRatio',
        stoneRisk = jsRound stoneRisk',
        stressIndex = jsRound stressIndex',
        ckdProgressionRisk = jsRound ckdProgression,
        cardiovascularRisk = jsRound cvRisk,
        akirisk = jsRound akirisk',
        infectionRisk = jsRound infectionRisk',
        efficiency = jsRound efficiency',
        kidneyAge = kidneyAge',
        filtrationRate = jsRound (g * 1.44),
        tubularReabsorption = jsRound (99 - stressIndex' * 0.05),
        electrolyteBalance = jsRound (clamp electrolyteBalance' 0 100),
        acidBaseBalance = jsRound (clamp (85 - stressIndex' * 0.15) 0 100),
        mineralBoneScore = jsRound mineralBoneScore',
        anemiaScore = jsRound anemiaScore',
        inflammationScore = jsRound inflammationScore',
        proteinuriaLevel = urineProtein p,
        albuminuriaCategory = getAlbuminuriaCategory (urineAlbumin p),
        kidneyPerfusionIndex = jsRound kidneyPerfusionIndex',
        nephronHealth = nephronHealth',
        interstitialHealth = jsRound interstitialHealth',
        vascularHealth = jsRound vascularHealth',
        overallHealthScore = clamp overallHealthScore' 0 100,
        riskHeatmap = riskHeatmap' \<rparr>)"

subsection \<open>Drug interactions\<close>

text \<open>
  \<open>DRUG_INTERACTIONS\<close>. The arrow in the effect text of the statin entry is written
  as its three UTF-8 bytes.
\<close>

definition mkInteraction ::
  "string \<Rightarrow> string \<Rightarrow> Severity \<Rightarrow> string \<Rightarrow> string \<Rightarrow> DrugInteraction" where
  "mkInteraction d1 d2 sev descr eff =
     \<lparr>drug1 = d1, drug2 = d2, severity = sev, description = descr, effect = eff\<rparr>"

definition DRUG_INTERACTIONS :: "DrugInteraction list" where
  "DRUG_INTERACTIONS =
    [mkInteraction ''ace'' ''arb'' Severe ''Dual RAAS blockade''
       ''Hyperkalemia, hypotension, renal failure risk'',
     mkInteraction ''ace'' ''potassium'' Severe ''ACEi + K+ supplements''
       ''Life-threatening hyperkalemia'',
     mkInteraction ''ace'' ''nsaid'' Moderate ''ACEi + NSAID''
       ''Reduced antihypertensive effect, acute kidney injury risk'',
     mkInteraction ''arb'' ''potassium'' Severe ''ARB + K+ supplements''
       ''Life-threatening hyperkalemia'',
     mkInteraction ''arb'' ''nsaid'' Moderate ''ARB + NSAID''
       ''Reduced renal function, fluid retention'',
     mkInteraction ''metformin'' ''contrast'' Severe ''Metformin + IV contrast''
       ''Lactic acidosis risk'',
     mkInteraction ''allopurinol'' ''azathioprine'' Severe ''Xanthine oxidase + thiopurine''
       ''Bone marrow suppression'',
     mkInteraction ''diuretic'' ''ace'' Moderate ''Diuretic + ACEi first dose''
       ''Excessive hypotension'',
     mkInteraction ''diuretic'' ''lithium'' Moderate ''Diuretic + Lithium''
       ''Lithium toxicity'',
     mkInteraction ''diuretic'' ''nsaid'' Moderate ''Diuretic + NSAID''
       ''Reduced diuretic efficacy, renal impairment'',
     mkInteraction ''ccb'' ''beta_blocker'' Mild ''CCB + Beta blocker''
       ''Excessive bradycardia'',
     mkInteraction ''statin'' ''fibrate'' Moderate ''Statin + Fibrate''
       (''Rhabdomyolysis risk '' @ [CHR 0xE2, CHR 0x86, CHR 0x92] @ '' acute kidney injury''),
     mkInteraction ''aminoglycoside'' ''diuretic'' Severe ''Aminoglycoside + Loop diuretic''
       ''Ototoxicity and nephrotoxicity'',
     mkInteraction ''cyclosporine'' ''nsaid'' Severe ''Cyclosporine + NSAID''
       ''Nephrotoxicity'',
     mkInteraction ''ace'' ''trimethoprim'' Moderate ''ACEi + Trimethoprim''
       ''Hyperkalemia'']"

text \<open>\<open>!cat\<close> for a \<open>string | null\<close>: true for \<open>null\<close> and for the empty string.\<close>

fun falsy :: "string option \<Rightarrow> bool" where
  "falsy None = True"
| "falsy (Some c) = (c = [])"

text \<open>
  The body of the inner loop of \<open>detectDrugInteractions\<close> for one pair of entries of
  \<open>categories\<close>: the interactions pushed for the pair, in the order of
  \<open>DRUG_INTERACTIONS\<close>, the medicine names put in place of the class tags.
\<close>

definition pairInteractions ::
  "Treatment \<times> string option \<Rightarrow> Treatment \<times> string option \<Rightarrow> DrugInteraction list" where
  "pairInteractions ci cj =
     (let cat1 = snd ci; cat2 = snd cj in
      if falsy cat1 \<or> falsy cat2 then []
      else map (\<lambda>x. x\<lparr>drug1 := medicine (fst ci), drug2 := medicine (fst cj)\<rparr>)
             (filter (\<lambda>x. (cat1 = Some (drug1 x) \<and> cat2 = Some (drug2 x)) \<or>
                           (cat1 = Some (drug2 x) \<and> cat2 = Some (drug1 x)))
                DRUG_INTERACTIONS))"

text \<open>
  \<open>detectDrugInteractions\<close>: the loops \<open>for i in 0..n-1\<close>, \<open>for j in i+1..n-1\<close>
  over the indices of \<open>categories\<close>.
\<close>

definition detectDrugInteractions :: "Treatment list \<Rightarrow> DrugInteraction list" where
  "detectDrugInteractions treatments =
     (let categories = map (\<lambda>t. (t, getMedicineCategory (medicine t))) treatments;
          n = length categories
      in concat (map (\<lambda>i. concat (map (\<lambda>j. pairInteractions (categories ! i) (categories ! j))
                                     [i + 1 ..< n]))
                  [0 ..< n]))"

subsection \<open>Treatment simulation\<close>

text \<open>The ten accumulators of \<open>simulateTreatment\<close>.\<close>

record Effects =
  gfrDelta :: real
  creatinineDelta :: real
  uricAcidDelta :: real
  stressReduction :: real
  stoneRiskReduction :: real
  ckdProgReduction :: real
  cvRiskReduction :: real
  inflammationReduction :: real
  anemiaImprovement :: real
  mineralBoneImprovement :: real

definition noEffects :: Effects where
  "noEffects = \<lparr>gfrDelta = 0, creatinineDelta = 0, uricAcidDelta = 0, stressReduction = 0,
     stoneRiskReduction = 0, ckdProgReduction = 0, cvRiskReduction = 0,
     inflammationReduction = 0, anemiaImprovement = 0, mineralBoneImprovement = 0\<rparr>"

text \<open>The body of the loop over the treatments: the \<open>switch\<close> on the class.\<close>

definition applyTreatment :: "Treatment \<Rightarrow> Effects \<Rightarrow> Effects" where
  "applyTreatment t e =
     (let cat = getMedicineCategory (medicine t);
          doseMultiplier = min (tablets t) 3
      in
      if cat = Some ''ace'' then
        e\<lparr>gfrDelta := gfrDelta e + 5 * doseMultiplier * 0.7,
          stressReduction := stressReduction e + 10,
          ckdProgReduction := ckdProgReduction e + 8,
          cvRiskReduction := cvRiskReduction e + 6\<rparr>
      else if cat = Some ''arb'' then
        e\<lparr>gfrDelta := gfrDelta e + 4 * doseMultiplier * 0.7,
          stressReduction := stressReduction e + 9,
          ckdProgReduction := ckdProgReduction e + 7,
          cvRiskReduction := cvRiskReduction e + 5\<rparr>
      else if cat = Some ''sglt2'' then
        e\<lparr>gfrDelta := gfrDelta e + 6,
          stressReduction := stressReduction e + 8,
          ckdProgReduction := ckdProgReduction e + 15,
          cvRiskReduction := cvRiskReduction e + 10,
          stoneRiskReduction := stoneRiskReduction e + 3\<rparr>
      else if cat = Some ''xanthine_oxidase'' then
        e\<lparr>uricAcidDelta := uricAcidDelta e - 2.5 * doseMultiplier * 0.6,
          stoneRiskReduction := stoneRiskReduction e + 15,
          ckdProgReduction := ckdProgReduction e + 3\<rparr>
      else if cat = Some ''ccb'' then
        e\<lparr>stressReduction := stressReduction e + 8,
          cvRiskReduction := cvRiskReduction e + 5\<rparr>
      else if cat = Some ''diuretic'' then
        e\<lparr>stressReduction := stressReduction e + 6,
          gfrDelta := gfrDelta e + 2,
          stoneRiskReduction := stoneRiskReduction e + 5\<rparr>
      else if cat = Some ''beta_blocker'' then
        e\<lparr>stressReduction := stressReduction e + 5,
          cvRiskReduction := cvRiskReduction e + 8\<rparr>
      else if cat = Some ''statin'' then
        e\<lparr>cvRiskReduction := cvRiskReduction e + 12,
          inflammationReduction := inflammationReduction e + 5\<rparr>
      else if cat = Some ''phosphate_binder'' then
        e\<lparr>mineralBoneImprovement := mineralBoneImprovement e + 12\<rparr>
      else if cat = Some ''esa'' then
        e\<lparr>anemiaImprovement := anemiaImprovement e + 20\<rparr>
      else if cat = Some ''iron'' then
        e\<lparr>anemiaImprovement := anemiaImprovement e + 10\<rparr>
      else if cat = Some ''glp1'' then
        e\<lparr>stressReduction := stressReduction e + 5,
          ckdProgReduction := ckdProgReduction e + 8,
          cvRiskReduction := cvRiskReduction e + 8\<rparr>
      else
        (let e1 = (if includes_str (toLowerCase (medicine t)) ''sodium bicarbonate''
                   then e\<lparr>gfrDelta := gfrDelta e + 3,
                          ckdProgReduction := ckdProgReduction e + 4\<rparr>
                   else e)
         in if includes_str (toLowerCase (medicine t)) ''metformin''
            then e1\<lparr>stressReduction := stressReduction e1 + 5\<rparr>
            else e1))"

text \<open>The lifestyle adjustments, one \<open>if\<close> block of the source after the other.\<close>

definition applyLifestyle :: "PatientData \<Rightarrow> Adjustments \<Rightarrow> Effects \<Rightarrow> Effects" where
  "applyLifestyle p a e =
     (let hydrationDiff = adjHydration a - hydrationLevel p;
          e1 = (if hydrationDiff > 0
                then e\<lparr>stoneRiskReduction := stoneRiskReduction e + hydrationDiff * 5,
                       gfrDelta := gfrDelta e + hydrationDiff * 0.5\<rparr>
                else e);
          waterDiff = adjWaterIntake a - waterIntake p;
          e2 = (if waterDiff > 0
                then e1\<lparr>stoneRiskReduction := stoneRiskReduction e1 + waterDiff * 4\<rparr>
                else e1);
          saltReduction = saltIntake p - adjSaltIntake a;
          e3 = (if saltReduction > 0
                then e2\<lparr>stressReduction := stressReduction e2 + saltReduction * 3,
                        gfrDelta := gfrDelta e2 + saltReduction * 0.5,
                        cvRiskReduction := cvRiskReduction e2 + saltReduction * 1.5\<rparr>
                else e2);
          proteinReduction = proteinIntake p - adjProteinIntake a;
          e4 = (if proteinReduction > 0
                then e3\<lparr>stressReduction := stressReduction e3 + proteinReduction * 0.1,
                        creatinineDelta := creatinineDelta e3 - proteinReduction * 0.002,
                        ckdProgReduction := ckdProgReduction e3 + proteinReduction * 0.15\<rparr>
                else e3);
          exerciseDiff = adjExerciseLevel a - exerciseLevel p
      in if exerciseDiff > 0
         then e4\<lparr>stressReduction := stressReduction e4 + exerciseDiff * 1.5,
                 cvRiskReduction := cvRiskReduction e4 + exerciseDiff * 2,
                 inflammationReduction := inflammationReduction e4 + exerciseDiff * 1\<rparr>
         else e4)"

text \<open>The penalty of one detected interaction.\<close>

definition applyInteraction :: "DrugInteraction \<Rightarrow> Effects \<Rightarrow> Effects" where
  "applyInteraction x e =
     (if severity x = Severe
      then e\<lparr>gfrDelta := gfrDelta e - 3, stressReduction := stressReduction e - 5\<rparr>
      else if severity x = Moderate
      then e\<lparr>gfrDelta := gfrDelta e - 1, stressReduction := stressReduction e - 2\<rparr>
      else e)"

text \<open>
  The accumulators after the three phases: the loop over the treatments, the lifestyle
  adjustments, the loop over the detected interactions.
\<close>

definition treatmentEffects :: "PatientData \<Rightarrow> Treatment list \<Rightarrow> Adjustments \<Rightarrow> Effects" where
  "treatmentEffects p treatments a =
     fold applyInteraction (detectDrugInteractions treatments)
       (applyLifestyle p a (fold applyTreatment treatments noEffects))"

definition simulateTreatment ::
  "KidneyMetrics \<Rightarrow> PatientData \<Rightarrow> Treatment list \<Rightarrow> Adjustments \<Rightarrow> KidneyMetrics" where
  "simulateTreatment baseline p treatments a =
     (let e = treatmentEffects p treatments a;
          newGfr = clamp (gfr baseline + gfrDelta e) 5 150;
          newCreatinine = max (creatinine baseline + creatinineDelta e) 0.3;
          newUricAcid = max (uricAcid baseline + uricAcidDelta e) 1;
          newStress = max (stressIndex baseline - stressReduction e) 0;
          newStoneRisk = max (stoneRisk baseline - stoneRiskReduction e) 0;
          newEfficiency = clamp ((newGfr / 120) * 100) 5 100;
          newCkdProg = max (ckdProgressionRisk baseline - ckdProgReduction e) 0;
          newCvRisk = max (cardiovascularRisk baseline - cvRiskReduction e) 0;
          r = baseline
      in \<lparr>
        gfr = round1 newGfr,
        gfrCategory = getGFRCategory newGfr,
        ckdStage = getCKDStage newGfr,
        creatinine = round2 newCreatinine,
        uricAcid = round1 newUricAcid,
        bun = round1 (bun r * (newCreatinine / creatinine r)),
        bunCreatinineRatio = round1 ((bun r * (newCreatinine / creatinine r)) / newCreatinine),
        stoneRisk = jsRound newStoneRisk,
        stressIndex = jsRound newStress,
        ckdProgressionRisk = jsRound newCkdProg,
        cardiovascularRisk = jsRound newCvRisk,
        akirisk = jsRound (max (akirisk r - stressReduction e * 0.3) 0),
        infectionRisk = jsRound (max (infectionRisk r - stressReduction e * 0.1) 0),
        efficiency = jsRound newEfficiency,
        kidneyAge = jsRound (age p + (100 - newEfficiency) * 0.4 + newStress * 0.1),
        filtrationRate = jsRound (newGfr * 1.44),
        tubularReabsorption = jsRound (99 - newStress * 0.05),
        electrolyteBalance = clamp (electrolyteBalance r + jsRound (stressReduction e * 0.3)) 0 100,
        acidBaseBalance = clamp (acidBaseBalance r + jsRound (stressReduction e * 0.2)) 0 100,
        mineralBoneScore = clamp (mineralBoneScore r + jsRound (mineralBoneImprovement e)) 0 100,
        anemiaScore = clamp (anemiaScore r + jsRound (anemiaImprovement e)) 0 100,
        inflammationScore = clamp (inflammationScore r + jsRound (inflammationReduction e)) 0 100,
        proteinuriaLevel = max (proteinuriaLevel r * (1 - ckdProgReduction e * 0.01)) 0,
        albuminuriaCategory = albuminuriaCategory r,
        kidneyPerfusionIndex =
          clamp (kidneyPerfusionIndex r + jsRound (stressReduction e * 0.2)) 0 100,
        nephronHealth = clamp (jsRound (newEfficiency * 0.7 + (100 - newStress) * 0.3)) 0 100,
        interstitialHealth =
          clamp (interstitialHealth r + jsRound (stressReduction e * 0.2)) 0 100,
        vascularHealth = clamp (vascularHealth r + jsRound (cvRiskReduction e * 0.3)) 0 100,
        overallHealthScore = clamp (jsRound (
          newEfficiency * 0.25 +
          (100 - newStress) * 0.15 +
          (100 - newStoneRisk) * 0.05 +
          (100 - newCkdProg) * 0.15 +
          clamp (electrolyteBalance r + stressReduction e * 0.3) 0 100 * 0.1 +
          clamp (newEfficiency * 0.7 + (100 - newStress) * 0.3) 0 100 * 0.1 +
          clamp (vascularHealth r + cvRiskReduction e * 0.3) 0 100 * 0.1 +
          clamp (mineralBoneScore r + mineralBoneImprovement e) 0 100 * 0.05 +
          clamp (anemiaScore r + anemiaImprovement e) 0 100 * 0.05)) 0 100,
        riskHeatmap = \<lparr>
          glomerular = clamp (100 - (100 - newEfficiency) * 1.2) 0 100,
          tubular = clamp (100 - newStress * 0.8) 0 100,
          vascular = clamp (vascularHealth r + cvRiskReduction e * 0.3) 0 100,
          interstitial = clamp (interstitialHealth r + stressReduction e * 0.2) 0 100,
          collecting = clamp (90 - newStoneRisk * 0.3) 0 100,
          cortex = clamp ((newEfficiency * 0.7 + (100 - newStress) * 0.3) * 0.9 +
                     clamp (kidneyPerfusionIndex r + stressReduction e * 0.2) 0 100 * 0.1) 0 100,
          medulla = clamp (85 - newStress * 0.3 - newStoneRisk * 0.2) 0 100 \<rparr> \<rparr>)"

subsection \<open>Time projection\<close>

definition predictFutureMetrics :: "KidneyMetrics \<Rightarrow> real \<Rightarrow> KidneyMetrics" where
  "predictFutureMetrics simulated daysAhead =
     (let months = daysAhead / 30;
          improvementFactor = 1 - exp (- months / 6);
          maxGfrImprovement = (efficiency simulated - 40) * 0.08;
          stressDampening = improvementFactor * 5;
          riskDampening = improvementFactor * 8;
          newGfr = gfr simulated + maxGfrImprovement * improvementFactor * 2;
          newEfficiency =
            clamp (efficiency simulated + maxGfrImprovement * improvementFactor) 5 100;
          newStress = max (stressIndex simulated - stressDampening) 0;
          newStoneRisk = max (stoneRisk simulated - riskDampening) 0;
          newCkdProg = max (ckdProgressionRisk simulated - riskDampening * 0.6) 0;
          newCvRisk = max (cardiovascularRisk simulated - riskDampening * 0.4) 0
      in simulated\<lparr>
        gfr := round1 newGfr,
        gfrCategory := getGFRCategory newGfr,
        ckdStage := getCKDStage newGfr,
        efficiency := jsRound newEfficiency,
        stressIndex := jsRound newStress,
        stoneRisk := jsRound newStoneRisk,
        ckdProgressionRisk := jsRound newCkdProg,
        cardiovascularRisk := jsRound newCvRisk,
        overallHealthScore :=
          clamp (jsRound (overallHealthScore simulated + improvementFactor * 5)) 0 100,
        riskHeatmap := (riskHeatmap simulated)\<lparr>
          glomerular := clamp (glomerular (riskHeatmap simulated) + improvementFactor * 3) 0 100,
          tubular := clamp (tubular (riskHeatmap simulated) + improvementFactor * 3) 0 100,
          vascular := clamp (vascular (riskHeatmap simulated) + improvementFactor * 2) 0 100 \<rparr> \<rparr>)"

subsection \<open>Treatment ranking\<close>

record TreatmentRanking =
  combination :: "Treatment list"
  score :: real
  gfrImprovement :: real
  riskReduction :: real
  sideEffectRisk :: real
  interactionCount :: nat
  reasoning :: string

text \<open>
  Numbers in the reasoning text. \<open>showNat\<close> is the decimal numeral of a count;
  \<open>showRound1 v\<close> is the text of \<open>round1(v)\<close>, a number of tenths: its integer part
  and, unless it is zero, one decimal digit (as a number below \<open>10^21\<close> is printed).
\<close>

fun showNat :: "nat \<Rightarrow> string" where
  "showNat n =
     (if n < 10 then [char_of (48 + n)]
      else showNat (n div 10) @ [char_of (48 + n mod 10)])"

definition showRound1 :: "real \<Rightarrow> string" where
  "showRound1 v =
     (let k = \<lfloor>v * 10 + 1 / 2\<rfloor>; m = nat \<bar>k\<bar> in
      (if k < 0 then ''-'' else []) @ showNat (m div 10) @
      (if m mod 10 = 0 then [] else ''.'' @ showNat (m mod 10)))"

text \<open>\<open>parts.join(sep)\<close>\<close>

fun joinWith :: "string \<Rightarrow> string list \<Rightarrow> string" where
  "joinWith sep [] = []"
| "joinWith sep [x] = x"
| "joinWith sep (x # y # ys) = x @ sep @ joinWith sep (y # ys)"

text \<open>
  \<open>generateReasoning\<close>. The warning sign and the bullet of the source text are
  written as their UTF-8 bytes.
\<close>

definition generateReasoning ::
  "Treatment list \<Rightarrow> DrugInteraction list \<Rightarrow> real \<Rightarrow> real \<Rightarrow> string" where
  "generateReasoning combo interactions gfrImp riskRed =
     (let warningSign = [CHR 0xE2, CHR 0x9A, CHR 0xA0, CHR 0xEF, CHR 0xB8, CHR 0x8F];
          bullet = [CHR 0xE2, CHR 0x80, CHR 0xA2];
          severe = length (filter (\<lambda>i. severity i = Severe) interactions);
          parts =
            (if gfrImp > 5 then [''Strong GFR improvement (+'' @ showRound1 gfrImp @ '')'']
             else if gfrImp > 0 then [''Moderate GFR benefit (+'' @ showRound1 gfrImp @ '')'']
             else [])
            @ (if riskRed > 15 then [''significant risk reduction''] else [])
            @ (if length interactions = 0 then [''no drug interactions'']
               else if severe > 0
               then [warningSign @ '' '' @ showNat severe @ '' severe interaction(s)'']
               else [showNat (length interactions) @ '' mild/moderate interaction(s)''])
            @ (if length combo = 1 then [''monotherapy'']
               else [showNat (length combo) @ ''-drug regimen''])
      in joinWith ('' '' @ bullet @ '' '') parts)"

text \<open>
  The subsets the ranker generates, by the index loops of the source: the single
  treatments, then the pairs \<open>i < j\<close>, then the triples \<open>i < j < k\<close>.
\<close>

definition treatmentCombos :: "Treatment list \<Rightarrow> Treatment list list" where
  "treatmentCombos av =
     (let n = length av in
      map (\<lambda>t. [t]) av
      @ (if n \<ge> 2
         then concat (map (\<lambda>i. map (\<lambda>j. [av ! i, av ! j]) [i + 1 ..< n]) [0 ..< n])
         else [])
      @ (if n \<ge> 3
         then concat (map (\<lambda>i. concat (map (\<lambda>j. map (\<lambda>k. [av ! i, av ! j, av ! k])
                                                  [j + 1 ..< n])
                                        [i + 1 ..< n]))
                       [0 ..< n])
         else []))"

text \<open>\<open>defaultAdj\<close>: the patient's own lifestyle values.\<close>

definition defaultAdj :: "PatientData \<Rightarrow> Adjustments" where
  "defaultAdj p =
     \<lparr>adjHydration = hydrationLevel p, adjProteinIntake = proteinIntake p,
      adjSaltIntake = saltIntake p, adjWaterIntake = waterIntake p,
      adjExerciseLevel = exerciseLevel p\<rparr>"

text \<open>The ranking entry of one combination (the body of \<open>combos.map\<close>).\<close>

definition rankCombo :: "KidneyMetrics \<Rightarrow> PatientData \<Rightarrow> Treatment list \<Rightarrow> TreatmentRanking" where
  "rankCombo baseline p combo =
     (let result = simulateTreatment baseline p combo (defaultAdj p);
          interactions = detectDrugInteractions combo;
          severeCount = real (length (filter (\<lambda>i. severity i = Severe) interactions));
          modCount = real (length (filter (\<lambda>i. severity i = Moderate) interactions));
          gfrImprovement' = gfr result - gfr baseline;
          riskReduction' =
            (ckdProgressionRisk baseline - ckdProgressionRisk result) +
            (cardiovascularRisk baseline - cardiovascularRisk result) * 0.5 +
            (stoneRisk baseline - stoneRisk result) * 0.3;
          sideEffectRisk' = severeCount * 30 + modCount * 10;
          score' = jsRound (
            gfrImprovement' * 3 +
            riskReduction' * 1.5 +
            (overallHealthScore result - overallHealthScore baseline) * 2 -
            sideEffectRisk' * 2)
      in \<lparr>
        combination = combo,
        score = score',
        gfrImprovement = round1 gfrImprovement',
        riskReduction = jsRound riskReduction',
        sideEffectRisk = jsRound sideEffectRisk',
        interactionCount = length interactions,
        reasoning = generateReasoning combo interactions gfrImprovement' riskReduction' \<rparr>)"

text \<open>
  \<open>rankTreatmentCombinations\<close>. \<open>Array.prototype.sort\<close> is stable; with the
  comparator \<open>b.score - a.score\<close> it is the stable sort by descending score, which is
  \<open>sort_key\<close> (a stable insertion sort) on the negated score.
\<close>

definition rankTreatmentCombinations ::
  "KidneyMetrics \<Rightarrow> PatientData \<Rightarrow> Treatment list \<Rightarrow> TreatmentRanking list" where
  "rankTreatmentCombinations baseline p availableTreatments =
     (if length availableTreatments = 0 then []
      else take 10 (sort_key (\<lambda>r. - score r)
             (map (rankCombo baseline p) (treatmentCombos availableTreatments))))"

subsection \<open>The CKD-EPI 2021 equation, as the specification words it\<close>

text \<open>
  The value the specification gives for the GFR of a patient of age \<open>a\<close> and serum
  creatinine \<open>c\<close>: \<open>kappa\<close> is 0.7 (female) or 0.9 (male), \<open>alpha\<close> is -0.241
  (female) or -0.302 (male), \<open>ratio = c / kappa\<close>, the raw value is
  \<open>142 * min(ratio,1)^alpha * max(ratio,1)^-1.2 * 0.9938^a\<close>, times 1.012 if female,
  clamped to \<open>[3,160]\<close> and rounded to one decimal place (to the nearest tenth).
\<close>

definition ckdEpi2021 :: "real \<Rightarrow> bool \<Rightarrow> real \<Rightarrow> real" where
  "ckdEpi2021 a female c =
     (let kappa = (if female then 7 / 10 else 9 / 10);
          alpha = (if female then - (241 / 1000) else - (302 / 1000));
          ratio = c / kappa;
          g = 142 * min ratio 1 powr alpha * max ratio 1 powr - (12 / 10) * (9938 / 10000) powr a
                * (if female then 1012 / 1000 else 1)
      in of_int (round (min 160 (max 3 g) * 10)) / 10)"

text \<open>The value of \<open>calculateGFR\<close> before it is clamped and rounded.\<close>

definition gfrRaw :: "real \<Rightarrow> string \<Rightarrow> real \<Rightarrow> real" where
  "gfrRaw a g c =
     (let kappa = (if g = ''female'' then 0.7 else 0.9);
          alpha = (if g = ''female'' then - 0.241 else - 0.302);
          ratio = c / kappa;
          v = 142 * (min ratio 1 powr alpha) * (max ratio 1 powr (- 1.2)) * (0.9938 powr a)
      in if g = ''female'' then v * 1.012 else v)"

subsection \<open>Example inputs\<close>

text \<open>
  The patient of the specification's scenario: age 50, male, 80 kg, serum creatinine
  1.0 mg/dL, the other values in their normal ranges.
\<close>

definition patientA :: PatientData where
  "patientA = \<lparr>
     name = ''A'', age = 50, gender = Male, weight = 80, height = 175,
     systolicBP = 120, diastolicBP = 80, glucose = 90, patUricAcid = 5.5,
     hydrationLevel = 5, serumCreatinine = 1, patBun = 15, serumCalcium = 9.5,
     serumPotassium = 4.2, serumSodium = 140, serumPhosphorus = 3.5, serumAlbumin = 4,
     hemoglobin = 14, hba1c = 5.5, cholesterol = 180, triglycerides = 120,
     urineProtein = 100, urineAlbumin = 20, egfrCysC = 0, parathyroidHormone = 40,
     vitaminD = 35, cReactiveProtein = 1, existingConditions = [], currentMedicines = [],
     proteinIntake = 60, saltIntake = 5, waterIntake = 2, exerciseLevel = 5,
     smokingStatus = Never, alcoholUnitsPerWeek = 0 \<rparr>"

text \<open>The same patient at age 55: the baseline GFR is 88.9, category G2.\<close>

definition patientG2 :: PatientData where
  "patientG2 = patientA\<lparr>name := ''G2'', age := 55\<rparr>"

text \<open>
  The simulation of \<open>patientG2\<close> with no treatment and the hydration raised from 5 to
  7.14: the new GFR is 89.97, so the \<open>gfr\<close> field is 90.0 and the category is G2.
\<close>

definition simG2 :: KidneyMetrics where
  "simG2 = simulateTreatment (calculateBaselineMetrics patientG2) patientG2 []
             ((defaultAdj patientG2)\<lparr>adjHydration := 7.14\<rparr>)"

text \<open>The same patient with a diastolic pressure of 86: the stress index is 15.4.\<close>

definition patientS :: PatientData where
  "patientS = patientA\<lparr>name := ''S'', diastolicBP := 86\<rparr>"

text \<open>
  A patient with advanced kidney disease: age 70, serum creatinine 12 mg/dL, diabetes
  and heart disease, low hydration, ibuprofen among the current medicines.
\<close>

definition patientB :: PatientData where
  "patientB = patientA\<lparr>
     name := ''B'', age := 70, serumCreatinine := 12, patBun := 90, hydrationLevel := 2,
     existingConditions := [''diabetes'', ''heart_disease''],
     currentMedicines := [''Ibuprofen''] \<rparr>"

definition mkTreatment :: "string \<Rightarrow> string \<Rightarrow> Treatment" where
  "mkTreatment i m =
     \<lparr>ident = i, medicine = m, dosage = ''1 tablet'', frequency = ''daily'', tablets = 1,
      category = None\<rparr>"

text \<open>A loop diuretic with four NSAIDs: four moderate interactions.\<close>

definition treatmentsB :: "Treatment list" where
  "treatmentsB =
     [mkTreatment ''1'' ''Furosemide'', mkTreatment ''2'' ''Ibuprofen'',
      mkTreatment ''3'' ''Naproxen'', mkTreatment ''4'' ''Diclofenac'',
      mkTreatment ''5'' ''Celecoxib'']"

subsection \<open>Notions the properties are stated with\<close>

text \<open>
  An interaction with its pair of medicine names read as an unordered pair.
\<close>

definition unorderedInteraction :: "DrugInteraction \<Rightarrow> Severity \<times> string \<times> string \<times> string set" where
  "unorderedInteraction x = (severity x, description x, effect x, {drug1 x, drug2 x})"

text \<open>An entry of the array \<open>categories\<close> of \<open>detectDrugInteractions\<close>.\<close>

definition withCategory :: "Treatment \<Rightarrow> Treatment \<times> string option" where
  "withCategory t = (t, getMedicineCategory (medicine t))"

text \<open>The interactions of one pair of treatments, as unordered interactions.\<close>

definition pairSet :: "Treatment \<Rightarrow> Treatment \<Rightarrow> (Severity \<times> string \<times> string \<times> string set) set" where
  "pairSet a b = set (map unorderedInteraction (pairInteractions (withCategory a) (withCategory b)))"

text \<open>
  The index loops of the ranker over any list: the pairs \<open>i < j\<close> and the triples
  \<open>i < j < k\<close>.
\<close>

definition pairsOf :: "'a list \<Rightarrow> 'a list list" where
  "pairsOf xs = concat (map (\<lambda>i. map (\<lambda>j. [xs ! i, xs ! j]) [i + 1 ..< length xs]) [0 ..< length xs])"

definition triplesOf :: "'a list \<Rightarrow> 'a list list" where
  "triplesOf xs =
     concat (map (\<lambda>i. concat (map (\<lambda>j. map (\<lambda>k. [xs ! i, xs ! j, xs ! k]) [j + 1 ..< length xs])
                          [i + 1 ..< length xs]))
       [0 ..< length xs])"

text \<open>
  The snapshots a projection of 0 days leaves as they are: the GFR is a number of
  tenths, the category and the stage are those of the GFR, the efficiency is an integer
  in \<open>[5,100]\<close>, the stress index and the stone, CKD-progression and cardiovascular
  risks are integers from 0, the overall health score is an integer in \<open>[0,100]\<close>,
  and the glomerular, tubular and vascular regions lie in \<open>[0,100]\<close>.
\<close>

definition projectionFixed :: "KidneyMetrics \<Rightarrow> bool" where
  "projectionFixed m \<longleftrightarrow>
     round1 (gfr m) = gfr m
     \<and> gfrCategory m = getGFRCategory (gfr m)
     \<and> ckdStage m = getCKDStage (gfr m)
     \<and> jsRound (efficiency m) = efficiency m \<and> 5 \<le> efficiency m \<and> efficiency m \<le> 100
     \<and> jsRound (stressIndex m) = stressIndex m \<and> 0 \<le> stressIndex m
     \<and> jsRound (stoneRisk m) = stoneRisk m \<and> 0 \<le> stoneRisk m
     \<and> jsRound (ckdProgressionRisk m) = ckdProgressionRisk m \<and> 0 \<le> ckdProgressionRisk m
     \<and> jsRound (cardiovascularRisk m) = cardiovascularRisk m \<and> 0 \<le> cardiovascularRisk m
     \<and> jsRound (overallHealthScore m) = overallHealthScore m
     \<and> 0 \<le> overallHealthScore m \<and> overallHealthScore m \<le> 100
     \<and> 0 \<le> glomerular (riskHeatmap m) \<and> glomerular (riskHeatmap m) \<le> 100
     \<and> 0 \<le> tubular (riskHeatmap m) \<and> tubular (riskHeatmap m) \<le> 100
     \<and> 0 \<le> vascular (riskHeatmap m) \<and> vascular (riskHeatmap m) \<le> 100"

section \<open>Properties\<close>

subsection \<open>Rounding and clamping\<close>

lemma jsRound_mono: "x \<le> y \<Longrightarrow> jsRound x \<le> jsRound y"
  unfolding jsRound_def by (simp add: floor_mono)

lemma jsRound_of_int [simp]: "jsRound (of_int k) = of_int k"
proof -
  have "\<lfloor>real_of_int k + 1 / 2\<rfloor> = k" by linarith
  then show ?thesis unfolding jsRound_def by simp
qed

lemma jsRound_ge: "of_int k \<le> x \<Longrightarrow> of_int k \<le> jsRound x"
  using jsRound_mono [of "of_int k" x] by simp

lemma jsRound_le: "x \<le> of_int k \<Longrightarrow> jsRound x \<le> of_int k"
  using jsRound_mono [of x "of_int k"] by simp

lemma jsRound_numeral [simp]: "jsRound (numeral a) = numeral a" "jsRound 0 = 0" "jsRound 1 = 1"
  using jsRound_of_int [of "numeral a"] jsRound_of_int [of 0] jsRound_of_int [of 1] by simp_all

lemma jsRound_idem [simp]: "jsRound (jsRound x) = jsRound x"
  unfolding jsRound_def by simp

lemma jsRound_eval: "jsRound (numeral a / numeral b) = of_int ((2 * numeral a + numeral b) div (2 * numeral b))"
proof -
  have "(numeral a / numeral b + 1 / 2 :: real) = of_int (2 * numeral a + numeral b) / of_int (2 * numeral b)"
    by (simp add: field_simps)
  then show ?thesis unfolding jsRound_def by (simp only: floor_divide_of_int_eq)
qed

lemma jsRound_round: "jsRound x = of_int (round x)"
  unfolding jsRound_def round_def by simp

lemma jsRound_range:
  "0 \<le> v \<Longrightarrow> 0 \<le> jsRound v" "v \<le> 100 \<Longrightarrow> jsRound v \<le> 100" "5 \<le> v \<Longrightarrow> 5 \<le> jsRound v"
  using jsRound_ge [of 0 v] jsRound_le [of v 100] jsRound_ge [of 5 v] by simp_all

lemma round1_mono: "x \<le> y \<Longrightarrow> round1 x \<le> round1 y"
  unfolding round1_def by (simp add: jsRound_mono divide_right_mono)

lemma round1_bounds:
  assumes "5 \<le> v" "v \<le> 150"
  shows "5 \<le> round1 v \<and> round1 v \<le> 150"
proof -
  have "of_int 50 \<le> jsRound (v * 10)" using assms by (intro jsRound_ge) simp
  moreover have "jsRound (v * 10) \<le> of_int 1500" using assms by (intro jsRound_le) simp
  ultimately show ?thesis unfolding round1_def by simp
qed

lemma round1_tenths [simp]: "round1 (jsRound x / 10) = jsRound x / 10"
  unfolding round1_def by simp

lemma clamp_bounds: "lo \<le> hi \<Longrightarrow> lo \<le> clamp v lo hi \<and> clamp v lo hi \<le> hi"
  unfolding clamp_def by auto

lemma clamp_range: "0 \<le> clamp v 0 100" "clamp v 0 100 \<le> 100"
  unfolding clamp_def by auto

lemma clamp_id: "lo \<le> v \<Longrightarrow> v \<le> hi \<Longrightarrow> clamp v lo hi = v"
  unfolding clamp_def by simp

lemma clamp_3_160: "min (max x 3) 160 = min 160 (max 3 (x::real))"
  by (simp add: min.commute max.commute)

lemma clamp_jsRound_int [simp]: "jsRound (clamp (jsRound v) 0 100) = clamp (jsRound v) 0 100"
  unfolding clamp_def by (auto simp: min_def max_def)

lemma clamp_jsRound_id: "0 \<le> v \<Longrightarrow> v \<le> 100 \<Longrightarrow> clamp (jsRound v) 0 100 = jsRound v"
  by (simp add: clamp_id jsRound_range)

lemma max0_jsRound: "0 \<le> v \<Longrightarrow> max (jsRound v) 0 = jsRound v"
  using jsRound_range(1) [of v] by simp

lemma jsRound_clamp_fixed:
  "jsRound (clamp e lo hi) = e \<longleftrightarrow> jsRound e = e \<and> lo \<le> e \<and> e \<le> hi"
  if "jsRound lo = lo" "jsRound hi = hi" "lo \<le> hi"
  using that unfolding clamp_def by (auto simp: min_def max_def)

lemma jsRound_max0_fixed: "jsRound (max s 0) = s \<longleftrightarrow> jsRound s = s \<and> 0 \<le> s"
  by (auto simp: max_def)

lemma clamp_jsRound_fixed:
  "clamp (jsRound v) 0 100 = v \<longleftrightarrow> jsRound v = v \<and> 0 \<le> v \<and> v \<le> 100"
  unfolding clamp_def by (auto simp: min_def max_def split: if_splits)

lemma clamp_fixed: "clamp v lo hi = v \<longleftrightarrow> lo \<le> v \<and> v \<le> hi" if "lo \<le> hi"
  using that unfolding clamp_def by (auto simp: min_def max_def)

lemma exp_neg_bound: "0 \<le> x \<Longrightarrow> exp (- x) \<le> 1 / (1 + (x::real))"
proof -
  assume x: "0 \<le> x"
  have "1 + x \<le> exp x" by (rule exp_ge_add_one_self)
  then have "1 / exp x \<le> 1 / (1 + x)" using x by (intro divide_left_mono) auto
  then show ?thesis by (simp add: exp_minus inverse_eq_divide)
qed

subsection \<open>The GFR equation\<close>

lemma calculateGFR_gfrRaw:
  "calculateGFR a g c w = jsRound (min (max (gfrRaw a g c) 3) 160 * 10) / 10"
  unfolding calculateGFR_def gfrRaw_def Let_def by simp

lemma calculateGFR_spec: "calculateGFR a g c w = ckdEpi2021 a (g = ''female'') c"
proof (cases "g = ''female''")
  case True
  then show ?thesis
    unfolding calculateGFR_def ckdEpi2021_def Let_def jsRound_round clamp_3_160
    by (simp add: mult.assoc)
next
  case False
  then show ?thesis
    unfolding calculateGFR_def ckdEpi2021_def Let_def jsRound_round clamp_3_160
    by (simp add: mult.assoc)
qed

lemma calculateGFR_range: "3 \<le> calculateGFR a g c w" "calculateGFR a g c w \<le> 160"
proof -
  let ?v = "min (max (gfrRaw a g c) 3) 160 * 10"
  have "of_int 30 \<le> jsRound ?v" by (rule jsRound_ge) simp
  moreover have "jsRound ?v \<le> of_int 1600" by (rule jsRound_le) simp
  ultimately show "3 \<le> calculateGFR a g c w" "calculateGFR a g c w \<le> 160"
    unfolding calculateGFR_gfrRaw by simp_all
qed

lemma gfrRaw_antimono:
  assumes "0 < c1" "c1 \<le> c2"
  shows "gfrRaw a g c2 \<le> gfrRaw a g c1"
proof -
  have mono: "142 * (min (c2 / k) 1 powr al) * (max (c2 / k) 1 powr (- 1.2)) * (0.9938 powr a)
      \<le> 142 * (min (c1 / k) 1 powr al) * (max (c1 / k) 1 powr (- 1.2)) * (0.9938 powr a)"
    if k: "0 < k" and al: "al \<le> 0" for k al :: real
  proof -
    have r: "c1 / k \<le> c2 / k" "0 < c1 / k"
      using assms k by (simp_all add: divide_right_mono)
    have m1: "min (c2 / k) 1 powr al \<le> min (c1 / k) 1 powr al"
      using r al by (intro powr_mono2') auto
    have m2: "max (c2 / k) 1 powr (- 1.2) \<le> max (c1 / k) 1 powr (- 1.2)"
      using r by (intro powr_mono2') auto
    have "(min (c2 / k) 1 powr al) * (max (c2 / k) 1 powr (- 1.2))
        \<le> (min (c1 / k) 1 powr al) * (max (c1 / k) 1 powr (- 1.2))"
      using m1 m2 by (intro mult_mono) auto
    then have "142 * ((min (c2 / k) 1 powr al) * (max (c2 / k) 1 powr (- 1.2))) * (0.9938 powr a)
        \<le> 142 * ((min (c1 / k) 1 powr al) * (max (c1 / k) 1 powr (- 1.2))) * (0.9938 powr a)"
      by (intro mult_right_mono mult_left_mono) auto
    then show ?thesis by (simp add: mult.assoc)
  qed
  show ?thesis
  proof (cases "g = ''female''")
    case True
    have "142 * (min (c2 / 0.7) 1 powr (- 0.241)) * (max (c2 / 0.7) 1 powr (- 1.2)) * (0.9938 powr a) * 1.012
      \<le> 142 * (min (c1 / 0.7) 1 powr (- 0.241)) * (max (c1 / 0.7) 1 powr (- 1.2)) * (0.9938 powr a) * 1.012"
      using mono [of "0.7" "- 0.241"] by (intro mult_right_mono) auto
    with True show ?thesis unfolding gfrRaw_def Let_def by simp
  next
    case False
    with mono [of "0.9" "- 0.302"] show ?thesis unfolding gfrRaw_def Let_def by simp
  qed
qed

text \<open>
  Bounds of the powers in the three examples: \<open>(10/9)^-1.2\<close> and \<open>(40/3)^-1.2\<close>
  through their fifth powers, the powers of 0.9938 by exact arithmetic.
\<close>

lemma pow_09_12_bounds: "8812 / 10000 < (10 / 9 :: real) powr (- 1.2) \<and> (10 / 9 :: real) powr (- 1.2) < 8813 / 10000"
proof -
  define y :: real where "y = (10 / 9) powr (- 1.2)"
  have ypos: "0 < y" unfolding y_def by simp
  have "y ^ 5 = y powr 5" using ypos by simp
  also have "\<dots> = (10 / 9) powr (- 6)" unfolding y_def by (simp add: powr_powr)
  also have "\<dots> = (9 / 10) ^ 6" by (simp add: powr_minus field_simps)
  finally have y5: "y ^ 5 = (9 / 10) ^ 6" .
  have lo: "(8812 / 10000 :: real) ^ 5 < y ^ 5" unfolding y5 by (simp add: power_divide)
  have hi: "y ^ 5 < (8813 / 10000 :: real) ^ 5" unfolding y5 by (simp add: power_divide)
  have "8812 / 10000 < y" using lo ypos by (rule_tac power_less_imp_less_base) auto
  moreover have "y < 8813 / 10000" using hi by (rule_tac power_less_imp_less_base) auto
  ultimately show ?thesis unfolding y_def by simp
qed

lemma pow_age50: "(0.9938 :: real) powr 50 = (9938 / 10000) ^ 50"
  by simp

lemma gfrRaw_50_male: "9168 / 100 < gfrRaw 50 ''male'' 1 \<and> gfrRaw 50 ''male'' 1 < 9170 / 100"
proof -
  define y :: real where "y = (10 / 9) powr (- 1.2)"
  define q :: real where "q = (9938 / 10000) ^ 50"
  have y: "8812 / 10000 < y" "y < 8813 / 10000" using pow_09_12_bounds unfolding y_def by auto
  have q: "73273 / 100000 < q" "q < 73274 / 100000" unfolding q_def by (simp_all add: power_divide)
  have raw: "gfrRaw 50 ''male'' 1 = 142 * y * q"
    unfolding gfrRaw_def Let_def y_def q_def by (simp add: pow_age50)
  have ypos: "0 < 142 * y" using y by simp
  have "142 * (8812 / 10000) * (73273 / 100000) < 142 * y * (73273 / 100000)"
    using y by simp
  also have "\<dots> < 142 * y * q"
    using q(1) ypos by (rule mult_strict_left_mono)
  finally have lo: "142 * (8812 / 10000) * (73273 / 100000) < 142 * y * q" .
  have "142 * y * q < 142 * y * (73274 / 100000)"
    using q(2) ypos by (rule mult_strict_left_mono)
  also have "\<dots> < 142 * (8813 / 10000) * (73274 / 100000)"
    using y by simp
  finally have hi: "142 * y * q < 142 * (8813 / 10000) * (73274 / 100000)" .
  have "(9168 / 100 :: real) < 142 * (8812 / 10000) * (73273 / 100000)" by simp
  moreover have "142 * (8813 / 10000) * (73274 / 100000) < (9170 / 100 :: real)" by simp
  ultimately show ?thesis unfolding raw using lo hi by linarith
qed

lemma calculateGFR_50_male: "calculateGFR 50 ''male'' 1 w = 917 / 10"
proof -
  let ?r = "gfrRaw 50 ''male'' 1"
  have b: "9168 / 100 < ?r" "?r < 9170 / 100" using gfrRaw_50_male by auto
  then have "min (max ?r 3) 160 = ?r" by auto
  moreover have "\<lfloor>?r * 10 + 1 / 2\<rfloor> = 917" using b by linarith
  ultimately show ?thesis unfolding calculateGFR_gfrRaw jsRound_def by simp
qed

lemma q55: "7103 / 10000 < (9938 / 10000 :: real) ^ 55 \<and> (9938 / 10000 :: real) ^ 55 < 71031 / 100000"
  by (simp add: power_divide)

lemma gfrRaw_55_male: "8886 / 100 < gfrRaw 55 ''male'' 1 \<and> gfrRaw 55 ''male'' 1 < 8890 / 100"
proof -
  define y :: real where "y = (10 / 9) powr (- 1.2)"
  define q :: real where "q = (9938 / 10000) ^ 55"
  have y: "8812 / 10000 < y" "y < 8813 / 10000" using pow_09_12_bounds unfolding y_def by auto
  have q: "7103 / 10000 < q" "q < 71031 / 100000" unfolding q_def using q55 by auto
  have raw: "gfrRaw 55 ''male'' 1 = 142 * y * q"
    unfolding gfrRaw_def Let_def y_def q_def by simp
  have ypos: "0 < 142 * y" using y by simp
  have "142 * (8812 / 10000) * (7103 / 10000) < 142 * y * (7103 / 10000)"
    using y by simp
  also have "\<dots> < 142 * y * q"
    using q(1) ypos by (rule mult_strict_left_mono)
  finally have lo: "142 * (8812 / 10000) * (7103 / 10000) < 142 * y * q" .
  have "142 * y * q < 142 * y * (71031 / 100000)"
    using q(2) ypos by (rule mult_strict_left_mono)
  also have "\<dots> < 142 * (8813 / 10000) * (71031 / 100000)"
    using y by simp
  finally have hi: "142 * y * q < 142 * (8813 / 10000) * (71031 / 100000)" .
  have "(8886 / 100 :: real) < 142 * (8812 / 10000) * (7103 / 10000)" by simp
  moreover have "142 * (8813 / 10000) * (71031 / 100000) < (8890 / 100 :: real)" by simp
  ultimately show ?thesis unfolding raw using lo hi by linarith
qed

lemma calculateGFR_55_male: "calculateGFR 55 ''male'' 1 w = 889 / 10"
proof -
  let ?r = "gfrRaw 55 ''male'' 1"
  have b: "8886 / 100 < ?r" "?r < 8890 / 100" using gfrRaw_55_male by auto
  then have "min (max ?r 3) 160 = ?r" by auto
  moreover have "\<lfloor>?r * 10 + 1 / 2\<rfloor> = 889" using b by linarith
  ultimately show ?thesis unfolding calculateGFR_gfrRaw jsRound_def by simp
qed

lemma pow_40_3_bound: "(40 / 3 :: real) powr (- 1.2) < 45 / 1000"
proof -
  define y :: real where "y = (40 / 3) powr (- 1.2)"
  have ypos: "0 < y" unfolding y_def by simp
  have "y ^ 5 = y powr 5" using ypos by simp
  also have "\<dots> = (40 / 3) powr (- 6)" unfolding y_def by (simp add: powr_powr)
  also have "\<dots> = (3 / 40) ^ 6" by (simp add: powr_minus field_simps)
  finally have y5: "y ^ 5 = (3 / 40) ^ 6" .
  have hi: "y ^ 5 < (45 / 1000 :: real) ^ 5" unfolding y5 by (simp add: power_divide)
  have "y < 45 / 1000" using hi by (rule_tac power_less_imp_less_base) auto
  then show ?thesis unfolding y_def by simp
qed

lemma gfrRaw_70_male_12: "gfrRaw 70 ''male'' 12 < 42 / 10"
proof -
  define y :: real where "y = (40 / 3) powr (- 1.2)"
  define q :: real where "q = (9938 / 10000) ^ 70"
  have y: "0 < y" "y < 45 / 1000" using pow_40_3_bound unfolding y_def by auto
  have q: "0 < q" "q < 65 / 100" unfolding q_def by (simp_all add: power_divide)
  have raw: "gfrRaw 70 ''male'' 12 = 142 * y * q"
    unfolding gfrRaw_def Let_def y_def q_def by simp
  have "142 * y * q < 142 * y * (65 / 100)"
    using q(2) y(1) by simp
  also have "\<dots> < 142 * (45 / 1000) * (65 / 100)"
    using y by simp
  also have "\<dots> < 42 / 10" by simp
  finally show ?thesis unfolding raw .
qed

lemma calculateBaselineMetrics_gfr:
  "gfr (calculateBaselineMetrics p) =
     calculateGFR (age p) (genderString (gender p)) (serumCreatinine p) (weight p)"
  "gfrCategory (calculateBaselineMetrics p) = getGFRCategory (gfr (calculateBaselineMetrics p))"
  "ckdStage (calculateBaselineMetrics p) = getCKDStage (gfr (calculateBaselineMetrics p))"
  unfolding calculateBaselineMetrics_def Let_def by simp_all

text \<open>
  C3. For a creatinine above 0, \<open>calculateGFR\<close> returns the CKD-EPI 2021 value as the
  specification words it. For age 50, male, serum creatinine 1.0 (weight 80) the
  result is 91.7, its category is G1 and its CKD stage is 1, also as fields of the
  baseline metrics of such a patient.
\<close>

theorem calculateGFR_ckd_epi_2021:
  assumes "0 < c"
  shows "calculateGFR a g c w = ckdEpi2021 a (g = ''female'') c
    \<and> calculateGFR 50 ''male'' 1 80 = 917 / 10
    \<and> getGFRCategory (calculateGFR 50 ''male'' 1 80) = ''G1 - Normal or High''
    \<and> getCKDStage (calculateGFR 50 ''male'' 1 80) = 1
    \<and> gfr (calculateBaselineMetrics
          (p\<lparr>age := 50, gender := Male, weight := 80, serumCreatinine := 1\<rparr>)) = 917 / 10
    \<and> gfrCategory (calculateBaselineMetrics
          (p\<lparr>age := 50, gender := Male, weight := 80, serumCreatinine := 1\<rparr>))
        = ''G1 - Normal or High''
    \<and> ckdStage (calculateBaselineMetrics
          (p\<lparr>age := 50, gender := Male, weight := 80, serumCreatinine := 1\<rparr>)) = 1"
  using calculateGFR_spec [of a g c w]
  by (simp add: calculateBaselineMetrics_gfr calculateGFR_50_male getGFRCategory_def
        getCKDStage_def)

theorem calculateGFR_ckd_epi_2021_witness:
  "(0::real) < 12 / 10
    \<and> calculateGFR 63 ''female'' (12 / 10) 70 = ckdEpi2021 63 True (12 / 10)"
  using calculateGFR_ckd_epi_2021 [of "12 / 10" 63 "''female''" 70] by simp

text \<open>
  C7. For a fixed age, gender and weight, \<open>calculateGFR\<close> does not increase when the
  serum creatinine increases, from any creatinine above 0.
\<close>

theorem calculateGFR_antimono:
  assumes "0 < c1" "c1 \<le> c2"
  shows "calculateGFR a g c2 w \<le> calculateGFR a g c1 w"
proof -
  have "min (max (gfrRaw a g c2) 3) 160 * 10 \<le> min (max (gfrRaw a g c1) 3) 160 * 10"
    using gfrRaw_antimono [OF assms, of a g] by auto
  then show ?thesis
    unfolding calculateGFR_gfrRaw by (simp add: jsRound_mono divide_right_mono)
qed

theorem calculateGFR_antimono_witness:
  "(0::real) < 1 \<and> (1::real) \<le> 2
    \<and> calculateGFR 50 ''male'' 2 80 \<le> calculateGFR 50 ''male'' 1 80"
  using calculateGFR_antimono [of 1 2 50 "''male''" 80] by simp

subsection \<open>The baseline metrics\<close>

text \<open>The fields of the baseline, each in terms of the score it rounds.\<close>

lemma baseline_sel:
  "efficiency (calculateBaselineMetrics p) = jsRound (efficiencyOf (gfr (calculateBaselineMetrics p)))"
  "stressIndex (calculateBaselineMetrics p) = jsRound (stressIndexOf p)"
  "stoneRisk (calculateBaselineMetrics p) = jsRound (stoneRiskOf p)"
  "ckdProgressionRisk (calculateBaselineMetrics p) = jsRound (ckdProgressionOf (gfr (calculateBaselineMetrics p)) p)"
  "cardiovascularRisk (calculateBaselineMetrics p) = jsRound (cvRiskOf (gfr (calculateBaselineMetrics p)) p)"
  "akirisk (calculateBaselineMetrics p) = jsRound (akiriskOf (gfr (calculateBaselineMetrics p)) p)"
  "infectionRisk (calculateBaselineMetrics p) = jsRound (infectionRiskOf (gfr (calculateBaselineMetrics p)) p)"
  unfolding calculateBaselineMetrics_def Let_def by simp_all

lemma baseline_sel2:
  "overallHealthScore (calculateBaselineMetrics p) =
     clamp (jsRound (
        efficiencyOf (gfr (calculateBaselineMetrics p)) * 0.25 +
        (100 - stressIndexOf p) * 0.15 +
        (100 - stoneRiskOf p) * 0.05 +
        (100 - ckdProgressionOf (gfr (calculateBaselineMetrics p)) p) * 0.15 +
        electrolyteBalanceOf p * 0.1 +
        clamp (jsRound (efficiencyOf (gfr (calculateBaselineMetrics p)) * 0.7
                 + (100 - stressIndexOf p) * 0.3)) 0 100 * 0.1 +
        vascularHealthOf p * 0.1 +
        mineralBoneScoreOf p * 0.05 +
        anemiaScoreOf (gfr (calculateBaselineMetrics p)) p * 0.05)) 0 100"
  "glomerular (riskHeatmap (calculateBaselineMetrics p)) =
     clamp (100 - (100 - efficiencyOf (gfr (calculateBaselineMetrics p))) * 1.2) 0 100"
  "tubular (riskHeatmap (calculateBaselineMetrics p)) = clamp (100 - stressIndexOf p * 0.8) 0 100"
  "vascular (riskHeatmap (calculateBaselineMetrics p)) = vascularHealthOf p"
  unfolding calculateBaselineMetrics_def Let_def by simp_all

lemma baseline_sel3:
  "filtrationRate (calculateBaselineMetrics p) = jsRound (gfr (calculateBaselineMetrics p) * 1.44)"
  "electrolyteBalance (calculateBaselineMetrics p) = jsRound (clamp (electrolyteBalanceOf p) 0 100)"
  "acidBaseBalance (calculateBaselineMetrics p) = jsRound (clamp (85 - stressIndexOf p * 0.15) 0 100)"
  "mineralBoneScore (calculateBaselineMetrics p) = jsRound (mineralBoneScoreOf p)"
  "anemiaScore (calculateBaselineMetrics p) = jsRound (anemiaScoreOf (gfr (calculateBaselineMetrics p)) p)"
  "inflammationScore (calculateBaselineMetrics p) = jsRound (inflammationScoreOf p)"
  "kidneyPerfusionIndex (calculateBaselineMetrics p) =
     jsRound (kidneyPerfusionIndexOf (gfr (calculateBaselineMetrics p)) p)"
  "interstitialHealth (calculateBaselineMetrics p) = jsRound (interstitialHealthOf p)"
  "vascularHealth (calculateBaselineMetrics p) = jsRound (vascularHealthOf p)"
  unfolding calculateBaselineMetrics_def Let_def by simp_all

lemma efficiencyOf_range: "5 \<le> efficiencyOf g" "efficiencyOf g \<le> 100"
  unfolding efficiencyOf_def by auto

lemma score_ranges:
  "0 \<le> stoneRiskOf p" "stoneRiskOf p \<le> 100"
  "0 \<le> stressIndexOf p" "stressIndexOf p \<le> 100"
  "0 \<le> ckdProgressionOf g p" "ckdProgressionOf g p \<le> 100"
  "0 \<le> cvRiskOf g p" "cvRiskOf g p \<le> 100"
  "0 \<le> akiriskOf g p" "akiriskOf g p \<le> 100"
  "0 \<le> infectionRiskOf g p" "infectionRiskOf g p \<le> 100"
  "0 \<le> vascularHealthOf p" "vascularHealthOf p \<le> 100"
  "0 \<le> interstitialHealthOf p" "interstitialHealthOf p \<le> 100"
  "0 \<le> mineralBoneScoreOf p" "mineralBoneScoreOf p \<le> 100"
  "0 \<le> anemiaScoreOf g p" "anemiaScoreOf g p \<le> 100"
  "0 \<le> inflammationScoreOf p" "inflammationScoreOf p \<le> 100"
  "0 \<le> kidneyPerfusionIndexOf g p" "kidneyPerfusionIndexOf g p \<le> 100"
  unfolding stoneRiskOf_def stressIndexOf_def ckdProgressionOf_def cvRiskOf_def akiriskOf_def
    infectionRiskOf_def vascularHealthOf_def interstitialHealthOf_def mineralBoneScoreOf_def
    anemiaScoreOf_def inflammationScoreOf_def kidneyPerfusionIndexOf_def Let_def
  by (rule clamp_range)+

lemma baseline_gfr_tenths: "round1 (gfr (calculateBaselineMetrics p)) = gfr (calculateBaselineMetrics p)"
  unfolding calculateBaselineMetrics_gfr(1) calculateGFR_def Let_def by simp

lemma baseline_projectionFixed: "projectionFixed (calculateBaselineMetrics p)"
  unfolding projectionFixed_def
  by (simp add: baseline_gfr_tenths calculateBaselineMetrics_gfr(2,3) baseline_sel baseline_sel2
        jsRound_range score_ranges efficiencyOf_range clamp_range)

text \<open>The example patients.\<close>

lemma patientG2_gfr: "gfr (calculateBaselineMetrics patientG2) = 889 / 10"
  by (simp add: calculateBaselineMetrics_gfr patientG2_def patientA_def calculateGFR_55_male)

lemma patientG2_efficiency: "efficiency (calculateBaselineMetrics patientG2) = 74"
  by (simp add: baseline_sel patientG2_gfr efficiencyOf_def jsRound_eval)

lemma patientG2_category:
  "gfrCategory (calculateBaselineMetrics patientG2) = ''G2 - Mildly decreased''"
  by (simp add: calculateBaselineMetrics_gfr(2) patientG2_gfr getGFRCategory_def)

lemma patientS_stress: "stressIndexOf patientS = 154 / 10"
  by (simp add: stressIndexOf_def patientS_def patientA_def hasCondition_def clamp_def)

lemma patientB_hasNSAID: "hasNSAID patientB"
  by code_simp

lemma patientB_akiriskOf: "akiriskOf g patientB = 100"
  unfolding akiriskOf_def
  by (simp add: patientB_hasNSAID patientB_def patientA_def hasCondition_def clamp_def)

lemma patientB_akirisk: "akirisk (calculateBaselineMetrics patientB) = 100"
  by (simp add: baseline_sel patientB_akiriskOf)

lemma patientB_gfr:
  "3 \<le> gfr (calculateBaselineMetrics patientB)" "gfr (calculateBaselineMetrics patientB) \<le> 42 / 10"
proof -
  have g: "gfr (calculateBaselineMetrics patientB) = calculateGFR 70 ''male'' 12 80"
    by (simp add: calculateBaselineMetrics_gfr(1) patientB_def patientA_def)
  show "3 \<le> gfr (calculateBaselineMetrics patientB)" unfolding g by (rule calculateGFR_range)
  have "min (max (gfrRaw 70 ''male'' 12) 3) 160 * 10 \<le> 42"
    using gfrRaw_70_male_12 by simp
  then have "jsRound (min (max (gfrRaw 70 ''male'' 12) 3) 160 * 10) \<le> of_int 42"
    by (intro jsRound_le) simp
  then show "gfr (calculateBaselineMetrics patientB) \<le> 42 / 10"
    unfolding g calculateGFR_gfrRaw by simp
qed

lemma patientB_efficiency: "efficiency (calculateBaselineMetrics patientB) = 5"
proof -
  have "efficiencyOf (gfr (calculateBaselineMetrics patientB)) = 5"
    using patientB_gfr unfolding efficiencyOf_def by simp
  then show ?thesis by (simp add: baseline_sel)
qed

subsection \<open>The classifier\<close>

lemma lexiconCategory_None:
  "lexiconCategory cats lower = None \<longleftrightarrow>
     \<not> list_ex (\<lambda>d. includes_str lower d) (concat (map snd cats))"
  by (induction cats lower rule: lexiconCategory.induct) (auto simp: list_ex_iff)

lemma lexiconCategory_MEDICINE_CATEGORIES:
  "lexiconCategory MEDICINE_CATEGORIES lower = None \<longleftrightarrow> \<not> inLexicon lower"
  unfolding inLexicon_def by (rule lexiconCategory_None)

lemma applyTreatment_ace:
  "getMedicineCategory (medicine t) = Some ''ace'' \<Longrightarrow>
   applyTreatment t e =
     e\<lparr>gfrDelta := gfrDelta e + 5 * min (tablets t) 3 * 0.7,
       stressReduction := stressReduction e + 10,
       ckdProgReduction := ckdProgReduction e + 8,
       cvRiskReduction := cvRiskReduction e + 6\<rparr>"
  unfolding applyTreatment_def Let_def by simp

lemma applyTreatment_sglt2:
  "getMedicineCategory (medicine t) = Some ''sglt2'' \<Longrightarrow>
   applyTreatment t e =
     e\<lparr>gfrDelta := gfrDelta e + 6,
       stressReduction := stressReduction e + 8,
       ckdProgReduction := ckdProgReduction e + 15,
       cvRiskReduction := cvRiskReduction e + 10,
       stoneRiskReduction := stoneRiskReduction e + 3\<rparr>"
  unfolding applyTreatment_def Let_def by simp

text \<open>
  C10. A medicine name whose lower-case form contains \<open>ace\<close>, does not contain
  \<open>acetate\<close> and contains no drug name of the lexicon is classified as \<open>ace\<close>, and
  the simulator applies the ACE-inhibitor effects to a treatment of that name. In
  particular \<open>acetaminophen\<close> is classified as an ACE inhibitor, and with losartan
  it is reported as a dual RAAS blockade.
\<close>

theorem getMedicineCategory_ace_heuristic:
  assumes "includes_str (toLowerCase (medicine t)) ''ace''"
    and "\<not> includes_str (toLowerCase (medicine t)) ''acetate''"
    and "\<not> inLexicon (toLowerCase (medicine t))"
  shows "getMedicineCategory (medicine t) = Some ''ace''
    \<and> applyTreatment t e =
         e\<lparr>gfrDelta := gfrDelta e + 5 * min (tablets t) 3 * 0.7,
           stressReduction := stressReduction e + 10,
           ckdProgReduction := ckdProgReduction e + 8,
           cvRiskReduction := cvRiskReduction e + 6\<rparr>
    \<and> getMedicineCategory ''acetaminophen'' = Some ''ace''
    \<and> detectDrugInteractions [mkTreatment ''1'' ''Acetaminophen'', mkTreatment ''2'' ''Losartan'']
        = [mkInteraction ''Acetaminophen'' ''Losartan'' Severe ''Dual RAAS blockade''
             ''Hyperkalemia, hypotension, renal failure risk'']"
proof -
  have cat: "getMedicineCategory (medicine t) = Some ''ace''"
    using assms
    by (simp add: getMedicineCategory_def lexiconCategory_MEDICINE_CATEGORIES [THEN iffD2])
  have ex: "getMedicineCategory ''acetaminophen'' = Some ''ace''"
    by code_simp
  have inter: "detectDrugInteractions
        [mkTreatment ''1'' ''Acetaminophen'', mkTreatment ''2'' ''Losartan'']
      = [mkInteraction ''Acetaminophen'' ''Losartan'' Severe ''Dual RAAS blockade''
           ''Hyperkalemia, hypotension, renal failure risk'']"
    by code_simp
  from cat applyTreatment_ace [OF cat, of e] ex inter show ?thesis
    by (intro conjI)
qed

theorem getMedicineCategory_ace_heuristic_witness:
  "includes_str (toLowerCase (medicine (mkTreatment ''1'' ''Acetaminophen''))) ''ace''
   \<and> \<not> includes_str (toLowerCase (medicine (mkTreatment ''1'' ''Acetaminophen''))) ''acetate''
   \<and> \<not> inLexicon (toLowerCase (medicine (mkTreatment ''1'' ''Acetaminophen'')))
   \<and> getMedicineCategory (medicine (mkTreatment ''1'' ''Acetaminophen'')) = Some ''ace''"
proof -
  let ?t = "mkTreatment ''1'' ''Acetaminophen''"
  have m: "medicine ?t = ''Acetaminophen''" by (simp add: mkTreatment_def)
  have a: "includes_str (toLowerCase (medicine ?t)) ''ace''" unfolding m by code_simp
  have b: "\<not> includes_str (toLowerCase (medicine ?t)) ''acetate''" unfolding m by code_simp
  have c: "\<not> inLexicon (toLowerCase (medicine ?t))" unfolding m by code_simp
  from a b c getMedicineCategory_ace_heuristic [OF a b c] show ?thesis
    by blast
qed

subsection \<open>Interaction detection\<close>

text \<open>
  The index loops of \<open>detectDrugInteractions\<close>, read off the head of the list: the
  pairs of the first treatment with each later one, then the pairs of the rest.
\<close>

lemma detectDrugInteractions_Nil [simp]: "detectDrugInteractions [] = []"
  unfolding detectDrugInteractions_def by simp

lemma index_pairs_Cons:
  "concat (map (\<lambda>i. concat (map (\<lambda>j. f ((x # xs) ! i) ((x # xs) ! j)) [i + 1 ..< Suc (length xs)]))
       [0 ..< Suc (length xs)])
   = concat (map (f x) xs)
     @ concat (map (\<lambda>i. concat (map (\<lambda>j. f (xs ! i) (xs ! j)) [i + 1 ..< length xs]))
         [0 ..< length xs])"
proof -
  have inner0: "concat (map (\<lambda>j. f x ((x # xs) ! j)) [Suc 0 ..< Suc (length xs)])
      = concat (map (f x) xs)"
  proof -
    have "map (\<lambda>j. f x ((x # xs) ! j)) [Suc 0 ..< Suc (length xs)]
        = map (\<lambda>j. f x (xs ! j)) [0 ..< length xs]"
      by (simp add: map_Suc_upt [symmetric] o_def del: upt_Suc)
    also have "\<dots> = map (f x) (map (\<lambda>j. xs ! j) [0 ..< length xs])"
      by (simp add: o_def)
    also have "\<dots> = map (f x) xs" by (simp only: map_nth)
    finally show ?thesis by simp
  qed
  have rest: "map (\<lambda>i. concat (map (\<lambda>j. f ((x # xs) ! i) ((x # xs) ! j)) [i + 1 ..< Suc (length xs)]))
        [Suc 0 ..< Suc (length xs)]
      = map (\<lambda>i. concat (map (\<lambda>j. f (xs ! i) (xs ! j)) [i + 1 ..< length xs])) [0 ..< length xs]"
  proof -
    have "map (\<lambda>i. concat (map (\<lambda>j. f ((x # xs) ! i) ((x # xs) ! j)) [i + 1 ..< Suc (length xs)]))
        [Suc 0 ..< Suc (length xs)]
      = map (\<lambda>i. concat (map (\<lambda>j. f (xs ! i) ((x # xs) ! j)) [Suc (Suc i) ..< Suc (length xs)]))
          [0 ..< length xs]"
      by (simp add: map_Suc_upt [symmetric] o_def del: upt_Suc)
    also have "\<dots> = map (\<lambda>i. concat (map (\<lambda>j. f (xs ! i) (xs ! j)) [Suc i ..< length xs]))
          [0 ..< length xs]"
      by (simp add: map_Suc_upt [symmetric] o_def del: upt_Suc)
    finally show ?thesis by simp
  qed
  have "[0 ..< Suc (length xs)] = 0 # [Suc 0 ..< Suc (length xs)]"
    by (simp add: upt_conv_Cons del: upt_Suc)
  then show ?thesis
    using inner0 rest by (simp del: upt_Suc)
qed

lemma detectDrugInteractions_Cons:
  "detectDrugInteractions (t # ts) =
     concat (map (\<lambda>u. pairInteractions (withCategory t) (withCategory u)) ts)
     @ detectDrugInteractions ts"
proof -
  let ?c = "map withCategory"
  have "detectDrugInteractions (t # ts) =
      concat (map (\<lambda>i. concat (map (\<lambda>j. pairInteractions ((withCategory t # ?c ts) ! i)
                ((withCategory t # ?c ts) ! j)) [i + 1 ..< Suc (length (?c ts))]))
         [0 ..< Suc (length (?c ts))])"
    unfolding detectDrugInteractions_def Let_def withCategory_def by simp
  also have "\<dots> = concat (map (pairInteractions (withCategory t)) (?c ts))
      @ concat (map (\<lambda>i. concat (map (\<lambda>j. pairInteractions (?c ts ! i) (?c ts ! j))
                [i + 1 ..< length (?c ts)])) [0 ..< length (?c ts)])"
    by (rule index_pairs_Cons)
  also have "concat (map (\<lambda>i. concat (map (\<lambda>j. pairInteractions (?c ts ! i) (?c ts ! j))
                [i + 1 ..< length (?c ts)])) [0 ..< length (?c ts)]) = detectDrugInteractions ts"
    unfolding detectDrugInteractions_def Let_def withCategory_def by simp
  finally show ?thesis by (simp add: o_def)
qed

lemma detectDrugInteractions_single [simp]: "detectDrugInteractions [t] = []"
  unfolding detectDrugInteractions_def by simp

lemma pairSet_sym: "pairSet a b = pairSet b a"
  unfolding pairSet_def pairInteractions_def withCategory_def Let_def unorderedInteraction_def
  by (auto simp: image_iff)

lemma interactions_Cons:
  "set (map unorderedInteraction (detectDrugInteractions (t # ts)))
     = (\<Union>u \<in> set ts. pairSet t u) \<union> set (map unorderedInteraction (detectDrugInteractions ts))"
  unfolding detectDrugInteractions_Cons pairSet_def by auto

lemma pair_subset_Cons:
  "{#a, b#} \<subseteq># mset (t # ts) \<longleftrightarrow>
     {#a, b#} \<subseteq># mset ts \<or> (a = t \<and> b \<in> set ts) \<or> (b = t \<and> a \<in> set ts)"
proof -
  have sub: "{#a, b#} \<subseteq># M \<longleftrightarrow> a \<in># M \<and> b \<in># M - {#a#}" for M :: "'a multiset"
    by (simp add: insert_subset_eq_iff)
  have mem: "b \<in> set ts" if "{#a, b#} \<subseteq># mset ts"
    using mset_subset_eqD [OF that, of b] by simp
  show ?thesis
  proof (cases "a = t")
    case True
    then show ?thesis using mem by (auto simp: sub dest: in_diffD)
  next
    case False
    then show ?thesis by (auto simp: sub)
  qed
qed

lemma interactions_closed_form:
  "set (map unorderedInteraction (detectDrugInteractions ts))
     = (\<Union>(a, b) \<in> {(a, b). {#a, b#} \<subseteq># mset ts}. pairSet a b)"
proof (induction ts)
  case Nil
  show ?case by simp
next
  case (Cons t ts)
  have "(\<Union>(a, b) \<in> {(a, b). {#a, b#} \<subseteq># mset (t # ts)}. pairSet a b)
      = (\<Union>(a, b) \<in> {(a, b). {#a, b#} \<subseteq># mset ts}. pairSet a b)
        \<union> (\<Union>u \<in> set ts. pairSet t u) \<union> (\<Union>u \<in> set ts. pairSet u t)"
    unfolding pair_subset_Cons by auto
  also have "(\<Union>u \<in> set ts. pairSet u t) = (\<Union>u \<in> set ts. pairSet t u)"
    using pairSet_sym by simp
  finally show ?case
    unfolding interactions_Cons Cons.IH by auto
qed

text \<open>
  C6. For a treatment list and any permutation of it, \<open>detectDrugInteractions\<close>
  returns the same set of interactions, the medicine names of each interaction read as
  an unordered pair. (The function is pure: it returns the interactions and changes
  nothing.)
\<close>

theorem detectDrugInteractions_permutation:
  assumes "mset ts = mset ts'"
  shows "set (map unorderedInteraction (detectDrugInteractions ts))
       = set (map unorderedInteraction (detectDrugInteractions ts'))"
  unfolding interactions_closed_form assms ..

theorem detectDrugInteractions_permutation_witness:
  "mset [mkTreatment ''1'' ''Lisinopril'', mkTreatment ''2'' ''Losartan'']
     = mset [mkTreatment ''2'' ''Losartan'', mkTreatment ''1'' ''Lisinopril'']
   \<and> set (map unorderedInteraction (detectDrugInteractions
          [mkTreatment ''1'' ''Lisinopril'', mkTreatment ''2'' ''Losartan'']))
     = set (map unorderedInteraction (detectDrugInteractions
          [mkTreatment ''2'' ''Losartan'', mkTreatment ''1'' ''Lisinopril'']))"
proof -
  have m: "mset [mkTreatment ''1'' ''Lisinopril'', mkTreatment ''2'' ''Losartan'']
     = mset [mkTreatment ''2'' ''Losartan'', mkTreatment ''1'' ''Lisinopril'']"
    by simp
  from m detectDrugInteractions_permutation [OF m] show ?thesis by (intro conjI)
qed

subsection \<open>The simulator\<close>

text \<open>The accumulators in the simplest cases: no treatment, one treatment.\<close>

lemma applyLifestyle_defaultAdj [simp]: "applyLifestyle p (defaultAdj p) e = e"
  unfolding applyLifestyle_def defaultAdj_def Let_def by simp

lemma treatmentEffects_Nil: "treatmentEffects p [] a = applyLifestyle p a noEffects"
  unfolding treatmentEffects_def by simp

lemma treatmentEffects_single:
  "treatmentEffects p [t] (defaultAdj p) = applyTreatment t noEffects"
  unfolding treatmentEffects_def by simp

lemma treatmentEffects_noop [simp]: "treatmentEffects p [] (defaultAdj p) = noEffects"
  unfolding treatmentEffects_def by simp

lemma noEffects_sel [simp]:
  "gfrDelta noEffects = 0" "creatinineDelta noEffects = 0" "uricAcidDelta noEffects = 0"
  "stressReduction noEffects = 0" "stoneRiskReduction noEffects = 0"
  "ckdProgReduction noEffects = 0" "cvRiskReduction noEffects = 0"
  "inflammationReduction noEffects = 0" "anemiaImprovement noEffects = 0"
  "mineralBoneImprovement noEffects = 0"
  unfolding noEffects_def by simp_all

text \<open>
  C8, as amended. A medicine name that contains \<open>metformin\<close> (in any case), contains
  no drug name of the lexicon, and is not caught by an earlier heuristic (it does not
  contain \<open>ace\<close> without \<open>acetate\<close>, nor \<open>arb\<close>, nor \<open>diuretic\<close>) is classified
  as \<open>sglt2\<close>; the simulator applies the SGLT2 effects to a treatment of that name,
  and they are the whole effect of simulating that treatment alone with the lifestyle
  unchanged.
\<close>

theorem getMedicineCategory_metformin:
  assumes "includes_str (toLowerCase (medicine t)) ''metformin''"
    and "\<not> inLexicon (toLowerCase (medicine t))"
    and "includes_str (toLowerCase (medicine t)) ''ace''
           \<longrightarrow> includes_str (toLowerCase (medicine t)) ''acetate''"
    and "\<not> includes_str (toLowerCase (medicine t)) ''arb''"
    and "\<not> includes_str (toLowerCase (medicine t)) ''diuretic''"
  shows "getMedicineCategory (medicine t) = Some ''sglt2''
    \<and> applyTreatment t e =
         e\<lparr>gfrDelta := gfrDelta e + 6,
           stressReduction := stressReduction e + 8,
           ckdProgReduction := ckdProgReduction e + 15,
           cvRiskReduction := cvRiskReduction e + 10,
           stoneRiskReduction := stoneRiskReduction e + 3\<rparr>
    \<and> treatmentEffects p [t] (defaultAdj p) =
         noEffects\<lparr>gfrDelta := 6, stressReduction := 8, ckdProgReduction := 15,
           cvRiskReduction := 10, stoneRiskReduction := 3\<rparr>"
proof -
  have cat: "getMedicineCategory (medicine t) = Some ''sglt2''"
    using assms
    by (auto simp add: getMedicineCategory_def lexiconCategory_MEDICINE_CATEGORIES [THEN iffD2])
  show ?thesis
    by (simp add: cat treatmentEffects_single applyTreatment_sglt2 [OF cat] noEffects_def)
qed

theorem getMedicineCategory_metformin_witness:
  "includes_str (toLowerCase (medicine (mkTreatment ''1'' ''Metformin 500mg''))) ''metformin''
   \<and> \<not> inLexicon (toLowerCase (medicine (mkTreatment ''1'' ''Metformin 500mg'')))
   \<and> \<not> includes_str (toLowerCase (medicine (mkTreatment ''1'' ''Metformin 500mg''))) ''ace''
   \<and> \<not> includes_str (toLowerCase (medicine (mkTreatment ''1'' ''Metformin 500mg''))) ''arb''
   \<and> \<not> includes_str (toLowerCase (medicine (mkTreatment ''1'' ''Metformin 500mg''))) ''diuretic''
   \<and> getMedicineCategory (medicine (mkTreatment ''1'' ''Metformin 500mg'')) = Some ''sglt2''"
proof -
  let ?t = "mkTreatment ''1'' ''Metformin 500mg''"
  have m: "medicine ?t = ''Metformin 500mg''" by (simp add: mkTreatment_def)
  have a: "includes_str (toLowerCase (medicine ?t)) ''metformin''" unfolding m by code_simp
  have b: "\<not> inLexicon (toLowerCase (medicine ?t))" unfolding m by code_simp
  have c: "\<not> includes_str (toLowerCase (medicine ?t)) ''ace''" unfolding m by code_simp
  have d: "\<not> includes_str (toLowerCase (medicine ?t)) ''arb''" unfolding m by code_simp
  have e: "\<not> includes_str (toLowerCase (medicine ?t)) ''diuretic''" unfolding m by code_simp
  from c have c': "includes_str (toLowerCase (medicine ?t)) ''ace''
           \<longrightarrow> includes_str (toLowerCase (medicine ?t)) ''acetate''" by simp
  from getMedicineCategory_metformin [OF a b c' d e] a b c d e show ?thesis by blast
qed

text \<open>
  The claim as stated fails on a name that an earlier heuristic catches: the name
  below contains \<open>metformin\<close> and no drug name of the lexicon, and it is classified as
  \<open>arb\<close>, for the \<open>arb\<close> in \<open>acarbose\<close>.
\<close>

theorem getMedicineCategory_metformin_counterexample:
  "includes_str (toLowerCase ''Acarbose + Metformin'') ''metformin''
   \<and> \<not> inLexicon (toLowerCase ''Acarbose + Metformin'')
   \<and> getMedicineCategory ''Acarbose + Metformin'' = Some ''arb''
   \<and> getMedicineCategory ''Acarbose + Metformin'' \<noteq> Some ''sglt2''"
  by code_simp

text \<open>
  C9. Whatever the baseline, the patient, the treatments and the adjustments, the GFR
  that \<open>simulateTreatment\<close> returns lies in \<open>[5,150]\<close>: the sum of the baseline GFR and
  the GFR delta is clamped to that range before it is rounded, also for a baseline GFR
  in \<open>[3,5)\<close> or \<open>(150,160]\<close>.
\<close>

theorem simulateTreatment_gfr_range:
  "5 \<le> gfr (simulateTreatment baseline p treatments a) \<and>
   gfr (simulateTreatment baseline p treatments a) \<le> 150"
  unfolding simulateTreatment_def Let_def
  by (simp add: round1_bounds clamp_bounds)

text \<open>
  The simulation with no treatment and the patient's own lifestyle values: its fields
  in terms of the baseline.
\<close>

lemma sim_sel:
  "gfr (simulateTreatment b p ts a) = round1 (clamp (gfr b + gfrDelta (treatmentEffects p ts a)) 5 150)"
  "gfrCategory (simulateTreatment b p ts a) =
     getGFRCategory (clamp (gfr b + gfrDelta (treatmentEffects p ts a)) 5 150)"
  unfolding simulateTreatment_def Let_def by simp_all

lemma sim_akirisk:
  "akirisk (simulateTreatment b p ts a) =
     jsRound (max (akirisk b - stressReduction (treatmentEffects p ts a) * 0.3) 0)"
  unfolding simulateTreatment_def Let_def by simp

lemma noop_sel:
  "gfr (simulateTreatment b p [] (defaultAdj p)) = round1 (clamp (gfr b) 5 150)"
  "gfrCategory (simulateTreatment b p [] (defaultAdj p)) = getGFRCategory (clamp (gfr b) 5 150)"
  "ckdStage (simulateTreatment b p [] (defaultAdj p)) = getCKDStage (clamp (gfr b) 5 150)"
  "stoneRisk (simulateTreatment b p [] (defaultAdj p)) = jsRound (max (stoneRisk b) 0)"
  "stressIndex (simulateTreatment b p [] (defaultAdj p)) = jsRound (max (stressIndex b) 0)"
  "ckdProgressionRisk (simulateTreatment b p [] (defaultAdj p)) = jsRound (max (ckdProgressionRisk b) 0)"
  "cardiovascularRisk (simulateTreatment b p [] (defaultAdj p)) = jsRound (max (cardiovascularRisk b) 0)"
  "akirisk (simulateTreatment b p [] (defaultAdj p)) = jsRound (max (akirisk b) 0)"
  "infectionRisk (simulateTreatment b p [] (defaultAdj p)) = jsRound (max (infectionRisk b) 0)"
  "filtrationRate (simulateTreatment b p [] (defaultAdj p)) = jsRound (clamp (gfr b) 5 150 * 1.44)"
  "electrolyteBalance (simulateTreatment b p [] (defaultAdj p)) = clamp (electrolyteBalance b) 0 100"
  "acidBaseBalance (simulateTreatment b p [] (defaultAdj p)) = clamp (acidBaseBalance b) 0 100"
  "mineralBoneScore (simulateTreatment b p [] (defaultAdj p)) = clamp (mineralBoneScore b) 0 100"
  "anemiaScore (simulateTreatment b p [] (defaultAdj p)) = clamp (anemiaScore b) 0 100"
  "inflammationScore (simulateTreatment b p [] (defaultAdj p)) = clamp (inflammationScore b) 0 100"
  "albuminuriaCategory (simulateTreatment b p [] (defaultAdj p)) = albuminuriaCategory b"
  "kidneyPerfusionIndex (simulateTreatment b p [] (defaultAdj p)) = clamp (kidneyPerfusionIndex b) 0 100"
  "interstitialHealth (simulateTreatment b p [] (defaultAdj p)) = clamp (interstitialHealth b) 0 100"
  "vascularHealth (simulateTreatment b p [] (defaultAdj p)) = clamp (vascularHealth b) 0 100"
  "tubular (riskHeatmap (simulateTreatment b p [] (defaultAdj p))) =
     clamp (100 - max (stressIndex b) 0 * 0.8) 0 100"
  unfolding simulateTreatment_def Let_def by simp_all

lemma efficiency_clamped: "clamp ((clamp g 5 150 / 120) * 100) 5 100 = efficiencyOf g"
  unfolding clamp_def efficiencyOf_def by (auto simp: min_def max_def)

lemma noop_efficiency:
  "efficiency (simulateTreatment b p [] (defaultAdj p)) = jsRound (efficiencyOf (gfr b))"
  "glomerular (riskHeatmap (simulateTreatment b p [] (defaultAdj p))) =
     clamp (100 - (100 - efficiencyOf (gfr b)) * 1.2) 0 100"
  unfolding simulateTreatment_def Let_def treatmentEffects_noop noEffects_sel
  by (simp_all only: add_0_right efficiency_clamped KidneyMetrics.select_convs
        RiskHeatmapData.select_convs)

lemma getGFRCategory_clamped: "getGFRCategory (clamp g 5 150) = getGFRCategory g"
  unfolding clamp_def getGFRCategory_def by (auto simp: min_def max_def)

lemma getCKDStage_clamped: "getCKDStage (clamp g 5 150) = getCKDStage g"
  unfolding clamp_def getCKDStage_def by (auto simp: min_def max_def)

lemma noop_agrees:
  fixes p :: PatientData
  defines "b \<equiv> calculateBaselineMetrics p"
  defines "s \<equiv> simulateTreatment (calculateBaselineMetrics p) p [] (defaultAdj p)"
  shows "gfrCategory s = gfrCategory b" "ckdStage s = ckdStage b"
    "stoneRisk s = stoneRisk b" "stressIndex s = stressIndex b"
    "ckdProgressionRisk s = ckdProgressionRisk b" "cardiovascularRisk s = cardiovascularRisk b"
    "akirisk s = akirisk b" "infectionRisk s = infectionRisk b"
    "efficiency s = efficiency b"
    "electrolyteBalance s = electrolyteBalance b" "acidBaseBalance s = acidBaseBalance b"
    "mineralBoneScore s = mineralBoneScore b" "anemiaScore s = anemiaScore b"
    "inflammationScore s = inflammationScore b" "albuminuriaCategory s = albuminuriaCategory b"
    "kidneyPerfusionIndex s = kidneyPerfusionIndex b"
    "interstitialHealth s = interstitialHealth b" "vascularHealth s = vascularHealth b"
    "glomerular (riskHeatmap s) = glomerular (riskHeatmap b)"
  unfolding b_def s_def noop_sel noop_efficiency
  by (simp_all add: calculateBaselineMetrics_gfr(2,3) baseline_sel baseline_sel2(2) baseline_sel3(2-)
        getGFRCategory_clamped getCKDStage_clamped
        max0_jsRound clamp_jsRound_id score_ranges clamp_range)

lemma noop_gfr:
  assumes "5 \<le> gfr (calculateBaselineMetrics p)" "gfr (calculateBaselineMetrics p) \<le> 150"
  shows "gfr (simulateTreatment (calculateBaselineMetrics p) p [] (defaultAdj p))
           = gfr (calculateBaselineMetrics p)"
    and "filtrationRate (simulateTreatment (calculateBaselineMetrics p) p [] (defaultAdj p))
           = filtrationRate (calculateBaselineMetrics p)"
  unfolding noop_sel using assms by (simp_all add: clamp_id baseline_gfr_tenths baseline_sel3(1))

lemma noop_sel_primary:
  "creatinine (simulateTreatment b p [] (defaultAdj p)) = round2 (max (creatinine b) 0.3)"
  "uricAcid (simulateTreatment b p [] (defaultAdj p)) = round1 (max (uricAcid b) 1)"
  "bun (simulateTreatment b p [] (defaultAdj p)) =
     round1 (bun b * (max (creatinine b) 0.3 / creatinine b))"
  "bunCreatinineRatio (simulateTreatment b p [] (defaultAdj p)) =
     round1 ((bun b * (max (creatinine b) 0.3 / creatinine b)) / max (creatinine b) 0.3)"
  "proteinuriaLevel (simulateTreatment b p [] (defaultAdj p)) = max (proteinuriaLevel b) 0"
  unfolding simulateTreatment_def Let_def by simp_all

lemma baseline_sel_primary:
  "creatinine (calculateBaselineMetrics p) = serumCreatinine p"
  "uricAcid (calculateBaselineMetrics p) = patUricAcid p"
  "bun (calculateBaselineMetrics p) = patBun p"
  "bunCreatinineRatio (calculateBaselineMetrics p) = round1 (patBun p / serumCreatinine p)"
  "proteinuriaLevel (calculateBaselineMetrics p) = urineProtein p"
  unfolding calculateBaselineMetrics_def Let_def round1_def by simp_all

lemma noop_primary:
  assumes "0.3 \<le> serumCreatinine p" "round2 (serumCreatinine p) = serumCreatinine p"
    and "1 \<le> patUricAcid p" "round1 (patUricAcid p) = patUricAcid p"
    and "round1 (patBun p) = patBun p"
    and "0 \<le> urineProtein p"
  shows "creatinine (simulateTreatment (calculateBaselineMetrics p) p [] (defaultAdj p))
           = creatinine (calculateBaselineMetrics p)"
    and "uricAcid (simulateTreatment (calculateBaselineMetrics p) p [] (defaultAdj p))
           = uricAcid (calculateBaselineMetrics p)"
    and "bun (simulateTreatment (calculateBaselineMetrics p) p [] (defaultAdj p))
           = bun (calculateBaselineMetrics p)"
    and "bunCreatinineRatio (simulateTreatment (calculateBaselineMetrics p) p [] (defaultAdj p))
           = bunCreatinineRatio (calculateBaselineMetrics p)"
    and "proteinuriaLevel (simulateTreatment (calculateBaselineMetrics p) p [] (defaultAdj p))
           = proteinuriaLevel (calculateBaselineMetrics p)"
proof -
  have c: "max (serumCreatinine p) 0.3 = serumCreatinine p" "serumCreatinine p \<noteq> 0"
    using assms(1) by simp_all
  have u: "max (patUricAcid p) 1 = patUricAcid p" using assms(3) by simp
  have q: "max (urineProtein p) 0 = urineProtein p" using assms(6) by simp
  show "creatinine (simulateTreatment (calculateBaselineMetrics p) p [] (defaultAdj p))
           = creatinine (calculateBaselineMetrics p)"
    and "uricAcid (simulateTreatment (calculateBaselineMetrics p) p [] (defaultAdj p))
           = uricAcid (calculateBaselineMetrics p)"
    and "bun (simulateTreatment (calculateBaselineMetrics p) p [] (defaultAdj p))
           = bun (calculateBaselineMetrics p)"
    and "bunCreatinineRatio (simulateTreatment (calculateBaselineMetrics p) p [] (defaultAdj p))
           = bunCreatinineRatio (calculateBaselineMetrics p)"
    and "proteinuriaLevel (simulateTreatment (calculateBaselineMetrics p) p [] (defaultAdj p))
           = proteinuriaLevel (calculateBaselineMetrics p)"
    unfolding noop_sel_primary baseline_sel_primary c u q
    using assms(2,4,5) c(2) by simp_all
qed

lemma patientA_rounded:
  "0.3 \<le> serumCreatinine patientA" "round2 (serumCreatinine patientA) = serumCreatinine patientA"
  "1 \<le> patUricAcid patientA" "round1 (patUricAcid patientA) = patUricAcid patientA"
  "round1 (patBun patientA) = patBun patientA"
  "0 \<le> urineProtein patientA"
  by (simp_all add: patientA_def round1_def round2_def jsRound_eval)

lemma patientS_tubular:
  "tubular (riskHeatmap (calculateBaselineMetrics patientS)) = 8768 / 100"
  "tubular (riskHeatmap (simulateTreatment (calculateBaselineMetrics patientS) patientS []
       (defaultAdj patientS))) = 88"
  unfolding noop_sel baseline_sel baseline_sel2 patientS_stress
  by (simp_all add: clamp_def jsRound_eval)

text \<open>
  C2, as amended. For every patient, \<open>simulateTreatment\<close> applied to the patient's
  baseline metrics with no treatment and the patient's own lifestyle values returns a
  snapshot that agrees with the baseline on the GFR category, the CKD stage, the stone,
  stress, CKD-progression, cardiovascular, AKI and infection scores, the efficiency,
  the electrolyte, acid-base, mineral-bone, anemia and inflammation scores, the
  albuminuria category, the perfusion index, the interstitial and vascular health and
  the glomerular region of the heatmap. The GFR and the filtration rate agree when the
  baseline GFR lies in \<open>[5,150]\<close>. The creatinine, the uric acid, the BUN, the
  BUN/creatinine ratio and the proteinuria level agree when the patient's creatinine is
  at least 0.3 and has two decimals, the uric acid is at least 1 and has one decimal,
  the BUN has one decimal and the urine protein is not negative. (The other fields are
  computed again from the rounded fields of the baseline.)
\<close>

theorem simulateTreatment_noop_fields:
  fixes p :: PatientData
  defines "b \<equiv> calculateBaselineMetrics p"
  defines "s \<equiv> simulateTreatment (calculateBaselineMetrics p) p [] (defaultAdj p)"
  shows "gfrCategory s = gfrCategory b \<and> ckdStage s = ckdStage b
    \<and> stoneRisk s = stoneRisk b \<and> stressIndex s = stressIndex b
    \<and> ckdProgressionRisk s = ckdProgressionRisk b
    \<and> cardiovascularRisk s = cardiovascularRisk b
    \<and> akirisk s = akirisk b \<and> infectionRisk s = infectionRisk b
    \<and> efficiency s = efficiency b
    \<and> electrolyteBalance s = electrolyteBalance b \<and> acidBaseBalance s = acidBaseBalance b
    \<and> mineralBoneScore s = mineralBoneScore b \<and> anemiaScore s = anemiaScore b
    \<and> inflammationScore s = inflammationScore b
    \<and> albuminuriaCategory s = albuminuriaCategory b
    \<and> kidneyPerfusionIndex s = kidneyPerfusionIndex b
    \<and> interstitialHealth s = interstitialHealth b \<and> vascularHealth s = vascularHealth b
    \<and> glomerular (riskHeatmap s) = glomerular (riskHeatmap b)
    \<and> (5 \<le> gfr b \<and> gfr b \<le> 150 \<longrightarrow>
          gfr s = gfr b \<and> filtrationRate s = filtrationRate b)
    \<and> (0.3 \<le> serumCreatinine p \<and> round2 (serumCreatinine p) = serumCreatinine p
        \<and> 1 \<le> patUricAcid p \<and> round1 (patUricAcid p) = patUricAcid p
        \<and> round1 (patBun p) = patBun p \<and> 0 \<le> urineProtein p \<longrightarrow>
          creatinine s = creatinine b \<and> uricAcid s = uricAcid b \<and> bun s = bun b
          \<and> bunCreatinineRatio s = bunCreatinineRatio b
          \<and> proteinuriaLevel s = proteinuriaLevel b)"
  unfolding b_def s_def
  using noop_agrees [of p] noop_gfr [of p] noop_primary [of p] by blast

theorem simulateTreatment_noop_fields_witness:
  "5 \<le> gfr (calculateBaselineMetrics patientA) \<and> gfr (calculateBaselineMetrics patientA) \<le> 150
   \<and> 0.3 \<le> serumCreatinine patientA
   \<and> round2 (serumCreatinine patientA) = serumCreatinine patientA
   \<and> 1 \<le> patUricAcid patientA \<and> round1 (patUricAcid patientA) = patUricAcid patientA
   \<and> round1 (patBun patientA) = patBun patientA \<and> 0 \<le> urineProtein patientA
   \<and> gfr (simulateTreatment (calculateBaselineMetrics patientA) patientA [] (defaultAdj patientA))
       = gfr (calculateBaselineMetrics patientA)
   \<and> creatinine (simulateTreatment (calculateBaselineMetrics patientA) patientA []
         (defaultAdj patientA)) = creatinine (calculateBaselineMetrics patientA)
   \<and> gfr (calculateBaselineMetrics patientA) = 917 / 10"
proof -
  have g: "gfr (calculateBaselineMetrics patientA) = 917 / 10"
    by (simp add: calculateBaselineMetrics_gfr(1) patientA_def calculateGFR_50_male)
  then have r: "5 \<le> gfr (calculateBaselineMetrics patientA)"
    "gfr (calculateBaselineMetrics patientA) \<le> 150" by simp_all
  from simulateTreatment_noop_fields [of patientA] r g patientA_rounded show ?thesis by blast
qed

text \<open>
  The claim as stated fails on the fields the simulator computes from rounded values:
  for the example patient with a diastolic pressure of 86 the stress index is 15.4
  before it is rounded, the tubular region of the baseline heatmap is
  \<open>100 - 15.4 * 0.8 = 87.68\<close>, and the simulator computes it from the rounded stress
  index 15 as \<open>100 - 15 * 0.8 = 88\<close>.
\<close>

theorem simulateTreatment_noop_counterexample:
  "tubular (riskHeatmap (calculateBaselineMetrics patientS)) = 8768 / 100
   \<and> tubular (riskHeatmap (simulateTreatment (calculateBaselineMetrics patientS) patientS []
        (defaultAdj patientS))) = 88
   \<and> simulateTreatment (calculateBaselineMetrics patientS) patientS [] (defaultAdj patientS)
       \<noteq> calculateBaselineMetrics patientS"
proof -
  have "tubular (riskHeatmap (simulateTreatment (calculateBaselineMetrics patientS) patientS []
        (defaultAdj patientS))) \<noteq> tubular (riskHeatmap (calculateBaselineMetrics patientS))"
    unfolding patientS_tubular by simp
  then have "simulateTreatment (calculateBaselineMetrics patientS) patientS [] (defaultAdj patientS)
      \<noteq> calculateBaselineMetrics patientS"
    by auto
  then show ?thesis by (simp add: patientS_tubular)
qed

subsection \<open>The projection\<close>

lemma predict_sel:
  "gfrCategory (predictFutureMetrics m d) =
     getGFRCategory (gfr m + (efficiency m - 40) * 0.08 * (1 - exp (- (d / 30) / 6)) * 2)"
  "ckdStage (predictFutureMetrics m d) =
     getCKDStage (gfr m + (efficiency m - 40) * 0.08 * (1 - exp (- (d / 30) / 6)) * 2)"
  "gfr (predictFutureMetrics m d) =
     round1 (gfr m + (efficiency m - 40) * 0.08 * (1 - exp (- (d / 30) / 6)) * 2)"
  unfolding predictFutureMetrics_def Let_def by simp_all

lemma predict_zero:
  "predictFutureMetrics m 0 =
     m\<lparr>gfr := round1 (gfr m),
       gfrCategory := getGFRCategory (gfr m),
       ckdStage := getCKDStage (gfr m),
       efficiency := jsRound (clamp (efficiency m) 5 100),
       stressIndex := jsRound (max (stressIndex m) 0),
       stoneRisk := jsRound (max (stoneRisk m) 0),
       ckdProgressionRisk := jsRound (max (ckdProgressionRisk m) 0),
       cardiovascularRisk := jsRound (max (cardiovascularRisk m) 0),
       overallHealthScore := clamp (jsRound (overallHealthScore m)) 0 100,
       riskHeatmap := (riskHeatmap m)\<lparr>
         glomerular := clamp (glomerular (riskHeatmap m)) 0 100,
         tubular := clamp (tubular (riskHeatmap m)) 0 100,
         vascular := clamp (vascular (riskHeatmap m)) 0 100\<rparr>\<rparr>"
  unfolding predictFutureMetrics_def Let_def by simp

lemma heatmap_fixed:
  "h\<lparr>glomerular := a, tubular := b, vascular := c\<rparr> = h \<longleftrightarrow>
     a = glomerular h \<and> b = tubular h \<and> c = vascular h"
  by (cases h) auto

lemma metrics_fixed:
  "m\<lparr>gfr := a1, gfrCategory := a2, ckdStage := a3, efficiency := a4, stressIndex := a5,
      stoneRisk := a6, ckdProgressionRisk := a7, cardiovascularRisk := a8,
      overallHealthScore := a9, riskHeatmap := a10\<rparr> = m \<longleftrightarrow>
   a1 = gfr m \<and> a2 = gfrCategory m \<and> a3 = ckdStage m \<and> a4 = efficiency m \<and>
   a5 = stressIndex m \<and> a6 = stoneRisk m \<and> a7 = ckdProgressionRisk m \<and>
   a8 = cardiovascularRisk m \<and> a9 = overallHealthScore m \<and> a10 = riskHeatmap m"
  by (cases m) auto

lemma predict_zero_iff: "predictFutureMetrics m 0 = m \<longleftrightarrow> projectionFixed m"
  unfolding predict_zero metrics_fixed heatmap_fixed projectionFixed_def
  by (auto simp: jsRound_clamp_fixed jsRound_max0_fixed clamp_jsRound_fixed clamp_fixed)

lemma predict_frame:
  "creatinine (predictFutureMetrics m d) = creatinine m"
  "uricAcid (predictFutureMetrics m d) = uricAcid m"
  "bun (predictFutureMetrics m d) = bun m"
  "bunCreatinineRatio (predictFutureMetrics m d) = bunCreatinineRatio m"
  "akirisk (predictFutureMetrics m d) = akirisk m"
  "infectionRisk (predictFutureMetrics m d) = infectionRisk m"
  "kidneyAge (predictFutureMetrics m d) = kidneyAge m"
  "filtrationRate (predictFutureMetrics m d) = filtrationRate m"
  "tubularReabsorption (predictFutureMetrics m d) = tubularReabsorption m"
  "electrolyteBalance (predictFutureMetrics m d) = electrolyteBalance m"
  "acidBaseBalance (predictFutureMetrics m d) = acidBaseBalance m"
  "mineralBoneScore (predictFutureMetrics m d) = mineralBoneScore m"
  "anemiaScore (predictFutureMetrics m d) = anemiaScore m"
  "inflammationScore (predictFutureMetrics m d) = inflammationScore m"
  "proteinuriaLevel (predictFutureMetrics m d) = proteinuriaLevel m"
  "albuminuriaCategory (predictFutureMetrics m d) = albuminuriaCategory m"
  "kidneyPerfusionIndex (predictFutureMetrics m d) = kidneyPerfusionIndex m"
  "nephronHealth (predictFutureMetrics m d) = nephronHealth m"
  "interstitialHealth (predictFutureMetrics m d) = interstitialHealth m"
  "vascularHealth (predictFutureMetrics m d) = vascularHealth m"
  "interstitial (riskHeatmap (predictFutureMetrics m d)) = interstitial (riskHeatmap m)"
  "collecting (riskHeatmap (predictFutureMetrics m d)) = collecting (riskHeatmap m)"
  "cortex (riskHeatmap (predictFutureMetrics m d)) = cortex (riskHeatmap m)"
  "medulla (riskHeatmap (predictFutureMetrics m d)) = medulla (riskHeatmap m)"
  unfolding predictFutureMetrics_def Let_def by simp_all

lemma getGFRCategory_G1: "90 \<le> g \<Longrightarrow> getGFRCategory g = ''G1 - Normal or High''"
  by (simp add: getGFRCategory_def)

lemma patientG2_projection:
  "gfrCategory (predictFutureMetrics (calculateBaselineMetrics patientG2) 365) = ''G1 - Normal or High''"
proof -
  have e: "exp (- (73 / 36 :: real)) \<le> 36 / 109"
    using exp_neg_bound [of "73 / 36"] by simp
  have lin: "E \<le> 36 / 109 \<Longrightarrow> (90::real) \<le> 889 / 10 + (74 - 40) * 0.08 * (1 - E) * 2" for E :: real
    by (simp add: field_simps)
  have "(90::real) \<le> 889 / 10 + (74 - 40) * 0.08 * (1 - exp (- (365 / 30) / 6)) * 2"
    using lin [of "exp (- (365 / 30) / 6)"] e by simp
  then show ?thesis
    by (simp only: predict_sel patientG2_gfr patientG2_efficiency getGFRCategory_G1)
qed

lemma simG2_gfrDelta:
  "gfrDelta (treatmentEffects patientG2 [] ((defaultAdj patientG2)\<lparr>adjHydration := 7.14\<rparr>)) = 107 / 100"
  unfolding treatmentEffects_Nil applyLifestyle_def Let_def
  by (simp add: defaultAdj_def patientG2_def patientA_def noEffects_def)

lemma simG2_gfr: "gfr simG2 = 90" "gfrCategory simG2 = ''G2 - Mildly decreased''"
  unfolding simG2_def sim_sel simG2_gfrDelta patientG2_gfr
  by (simp_all add: clamp_def round1_def jsRound_eval getGFRCategory_def)

lemma simG2_projection: "gfrCategory (predictFutureMetrics simG2 0) = ''G1 - Normal or High''"
  by (simp add: predict_sel simG2_gfr getGFRCategory_def)

text \<open>
  C5, as amended. \<open>predictFutureMetrics m 0\<close> returns \<open>m\<close> unchanged exactly when
  \<open>m\<close> is in the form the projection writes (\<open>projectionFixed\<close>), which every
  baseline snapshot is; and for every \<open>daysAhead\<close>, every field other than the GFR,
  the GFR category, the CKD stage, the efficiency, the stress index, the stone,
  CKD-progression and cardiovascular risks, the overall health score and the glomerular,
  tubular and vascular regions of the heatmap equals the field of \<open>m\<close>.
\<close>

theorem predictFutureMetrics_frame:
  "(predictFutureMetrics m 0 = m \<longleftrightarrow> projectionFixed m)
   \<and> predictFutureMetrics (calculateBaselineMetrics p) 0 = calculateBaselineMetrics p
   \<and> creatinine (predictFutureMetrics m d) = creatinine m
   \<and> uricAcid (predictFutureMetrics m d) = uricAcid m
   \<and> bun (predictFutureMetrics m d) = bun m
   \<and> bunCreatinineRatio (predictFutureMetrics m d) = bunCreatinineRatio m
   \<and> akirisk (predictFutureMetrics m d) = akirisk m
   \<and> infectionRisk (predictFutureMetrics m d) = infectionRisk m
   \<and> kidneyAge (predictFutureMetrics m d) = kidneyAge m
   \<and> filtrationRate (predictFutureMetrics m d) = filtrationRate m
   \<and> tubularReabsorption (predictFutureMetrics m d) = tubularReabsorption m
   \<and> electrolyteBalance (predictFutureMetrics m d) = electrolyteBalance m
   \<and> acidBaseBalance (predictFutureMetrics m d) = acidBaseBalance m
   \<and> mineralBoneScore (predictFutureMetrics m d) = mineralBoneScore m
   \<and> anemiaScore (predictFutureMetrics m d) = anemiaScore m
   \<and> inflammationScore (predictFutureMetrics m d) = inflammationScore m
   \<and> proteinuriaLevel (predictFutureMetrics m d) = proteinuriaLevel m
   \<and> albuminuriaCategory (predictFutureMetrics m d) = albuminuriaCategory m
   \<and> kidneyPerfusionIndex (predictFutureMetrics m d) = kidneyPerfusionIndex m
   \<and> nephronHealth (predictFutureMetrics m d) = nephronHealth m
   \<and> interstitialHealth (predictFutureMetrics m d) = interstitialHealth m
   \<and> vascularHealth (predictFutureMetrics m d) = vascularHealth m
   \<and> interstitial (riskHeatmap (predictFutureMetrics m d)) = interstitial (riskHeatmap m)
   \<and> collecting (riskHeatmap (predictFutureMetrics m d)) = collecting (riskHeatmap m)
   \<and> cortex (riskHeatmap (predictFutureMetrics m d)) = cortex (riskHeatmap m)
   \<and> medulla (riskHeatmap (predictFutureMetrics m d)) = medulla (riskHeatmap m)"
proof -
  have "predictFutureMetrics (calculateBaselineMetrics p) 0 = calculateBaselineMetrics p"
    using baseline_projectionFixed [of p] by (simp only: predict_zero_iff)
  with predict_zero_iff [of m] show ?thesis
    by (simp only: predict_frame simp_thms)
qed

theorem predictFutureMetrics_frame_witness:
  "projectionFixed (calculateBaselineMetrics patientA)
   \<and> predictFutureMetrics (calculateBaselineMetrics patientA) 0 = calculateBaselineMetrics patientA"
  using predictFutureMetrics_frame [of "calculateBaselineMetrics patientA" patientA 0]
    baseline_projectionFixed [of patientA]
  by blast

text \<open>
  The claim as stated fails in both parts. The snapshot \<open>simG2\<close> that the simulator
  returns has the GFR 90.0 (rounded from 89.97) and the category G2 (of 89.97); the
  projection of 0 days computes the category again from 90.0 and returns G1. And the
  baseline of \<open>patientG2\<close> has the GFR 88.9 and the category G2; projected 365 days
  ahead the GFR is above 90 and the category, which the claim counts among the
  unchanged fields, is G1.
\<close>

theorem predictFutureMetrics_counterexample:
  "predictFutureMetrics simG2 0 \<noteq> simG2
   \<and> gfrCategory (predictFutureMetrics (calculateBaselineMetrics patientG2) 365)
       \<noteq> gfrCategory (calculateBaselineMetrics patientG2)"
proof -
  have "gfrCategory (predictFutureMetrics simG2 0) \<noteq> gfrCategory simG2"
    by (simp add: simG2_projection simG2_gfr)
  then have "predictFutureMetrics simG2 0 \<noteq> simG2" by auto
  then show ?thesis by (simp add: patientG2_projection patientG2_category)
qed

subsection \<open>The ranker\<close>

text \<open>
  The index loops generate the sublists of length 1, 2 and 3, each length in the order
  of the indices, which is the order of \<open>subseqs\<close>.
\<close>

lemma map_upt_Suc_shift: "map G [Suc a ..< Suc b] = map (\<lambda>j. G (Suc j)) [a ..< b]"
  by (simp add: map_Suc_upt [symmetric] o_def del: upt_Suc)

lemma upt_0_Suc: "[0 ..< Suc n] = 0 # [Suc 0 ..< Suc n]"
  by (simp add: upt_conv_Cons del: upt_Suc)

lemma map_nth_upt: "map (\<lambda>j. g (xs ! j)) [0 ..< length xs] = map g xs"
proof -
  have "map (\<lambda>j. g (xs ! j)) [0 ..< length xs] = map g (map (\<lambda>j. xs ! j) [0 ..< length xs])"
    by (simp add: o_def)
  then show ?thesis by (simp only: map_nth)
qed

lemma pairsOf_Cons: "pairsOf (x # xs) = map (\<lambda>y. [x, y]) xs @ pairsOf xs"
proof -
  have "pairsOf (x # xs) =
      map (\<lambda>j. [x, (x # xs) ! j]) [Suc 0 ..< Suc (length xs)]
      @ concat (map (\<lambda>i. map (\<lambda>j. [(x # xs) ! i, (x # xs) ! j]) [Suc i ..< Suc (length xs)])
          [Suc 0 ..< Suc (length xs)])"
    unfolding pairsOf_def by (simp add: upt_0_Suc del: upt_Suc)
  also have "map (\<lambda>j. [x, (x # xs) ! j]) [Suc 0 ..< Suc (length xs)] = map (\<lambda>y. [x, y]) xs"
    using map_nth_upt [of "\<lambda>y. [x, y]" xs] by (simp add: map_upt_Suc_shift del: upt_Suc)
  also have "concat (map (\<lambda>i. map (\<lambda>j. [(x # xs) ! i, (x # xs) ! j]) [Suc i ..< Suc (length xs)])
          [Suc 0 ..< Suc (length xs)]) = pairsOf xs"
    unfolding pairsOf_def by (simp add: map_upt_Suc_shift del: upt_Suc)
  finally show ?thesis .
qed

lemma triplesOf_Cons: "triplesOf (x # xs) = map ((#) x) (pairsOf xs) @ triplesOf xs"
proof -
  have "triplesOf (x # xs) =
      concat (map (\<lambda>j. map (\<lambda>k. [x, (x # xs) ! j, (x # xs) ! k]) [Suc j ..< Suc (length xs)])
          [Suc 0 ..< Suc (length xs)])
      @ concat (map (\<lambda>i. concat (map (\<lambda>j. map (\<lambda>k. [(x # xs) ! i, (x # xs) ! j, (x # xs) ! k])
                                [Suc j ..< Suc (length xs)])
                          [Suc i ..< Suc (length xs)]))
          [Suc 0 ..< Suc (length xs)])"
    unfolding triplesOf_def by (simp add: upt_0_Suc del: upt_Suc)
  also have "concat (map (\<lambda>j. map (\<lambda>k. [x, (x # xs) ! j, (x # xs) ! k]) [Suc j ..< Suc (length xs)])
          [Suc 0 ..< Suc (length xs)]) = map ((#) x) (pairsOf xs)"
    unfolding pairsOf_def
    by (simp add: map_upt_Suc_shift map_concat o_def del: upt_Suc)
  also have "concat (map (\<lambda>i. concat (map (\<lambda>j. map (\<lambda>k. [(x # xs) ! i, (x # xs) ! j, (x # xs) ! k])
                                [Suc j ..< Suc (length xs)])
                          [Suc i ..< Suc (length xs)]))
          [Suc 0 ..< Suc (length xs)]) = triplesOf xs"
    unfolding triplesOf_def by (simp add: map_upt_Suc_shift del: upt_Suc)
  finally show ?thesis .
qed

lemma subseqs_length_Suc:
  "filter (\<lambda>c. length c = Suc k) (subseqs (x # xs)) =
     map ((#) x) (filter (\<lambda>c. length c = k) (subseqs xs))
     @ filter (\<lambda>c. length c = Suc k) (subseqs xs)"
  by (simp add: Let_def filter_map o_def)

lemma subseqs_length_0: "filter (\<lambda>c. c = []) (subseqs xs) = [[]]"
  by (induction xs) (simp_all add: Let_def filter_map o_def)

lemma subseqs_singles: "filter (\<lambda>c. length c = Suc 0) (subseqs xs) = map (\<lambda>x. [x]) xs"
proof (induction xs)
  case Nil
  show ?case by simp
next
  case (Cons x xs)
  show ?case
    by (simp add: subseqs_length_Suc subseqs_length_0 Cons.IH del: subseqs.simps)
qed

lemma subseqs_pairs: "filter (\<lambda>c. length c = Suc (Suc 0)) (subseqs xs) = pairsOf xs"
proof (induction xs)
  case Nil
  show ?case by (simp add: pairsOf_def)
next
  case (Cons x xs)
  show ?case
    by (simp add: subseqs_length_Suc subseqs_singles Cons.IH pairsOf_Cons o_def del: subseqs.simps)
qed

lemma subseqs_triples: "filter (\<lambda>c. length c = Suc (Suc (Suc 0))) (subseqs xs) = triplesOf xs"
proof (induction xs)
  case Nil
  show ?case by (simp add: triplesOf_def)
next
  case (Cons x xs)
  show ?case
    by (simp add: subseqs_length_Suc subseqs_pairs Cons.IH triplesOf_Cons del: subseqs.simps)
qed

lemma pairsOf_short: "length xs < 2 \<Longrightarrow> pairsOf xs = []"
  by (cases xs) (simp_all add: pairsOf_def)

lemma triplesOf_short: "length xs < 3 \<Longrightarrow> triplesOf xs = []"
proof -
  assume "length xs < 3"
  then consider "xs = []" | x where "xs = [x]" | x y where "xs = [x, y]"
    by (cases xs; cases "tl xs"; cases "tl (tl xs)") auto
  moreover have "triplesOf ([] :: 'a list) = []" by (simp add: triplesOf_def)
  ultimately show ?thesis
    by cases (simp_all add: triplesOf_Cons pairsOf_short)
qed

lemma treatmentCombos_eq: "treatmentCombos av = map (\<lambda>t. [t]) av @ pairsOf av @ triplesOf av"
proof -
  have "treatmentCombos av =
      map (\<lambda>t. [t]) av
      @ (if length av \<ge> 2 then pairsOf av else [])
      @ (if length av \<ge> 3 then triplesOf av else [])"
    by (simp only: treatmentCombos_def pairsOf_def triplesOf_def Let_def)
  then show ?thesis by (simp add: pairsOf_short triplesOf_short)
qed

lemma treatmentCombos_subseqs:
  "treatmentCombos av =
     filter (\<lambda>c. length c = 1) (subseqs av)
     @ filter (\<lambda>c. length c = 2) (subseqs av)
     @ filter (\<lambda>c. length c = 3) (subseqs av)"
proof -
  have n: "(2::nat) = Suc (Suc 0)" "(3::nat) = Suc (Suc (Suc 0))" by simp_all
  show ?thesis
    unfolding treatmentCombos_eq n One_nat_def subseqs_singles subseqs_pairs subseqs_triples ..
qed

lemma rank_eq:
  "rankTreatmentCombinations b p av =
     take 10 (sort_key (\<lambda>r. - score r) (map (rankCombo b p) (treatmentCombos av)))"
  unfolding rankTreatmentCombinations_def by (cases av) (simp_all add: treatmentCombos_def)

text \<open>
  The first \<open>n\<close> entries of a stable sort by descending key: at most \<open>n\<close>, in
  non-increasing order, entries of equal key in their original order, and no entry
  left out has a larger key than an entry kept.
\<close>

lemma take_sort_desc:
  fixes f :: "'a \<Rightarrow> real"
  defines "R \<equiv> \<lambda>n xs. take n (sort_key (\<lambda>r. - f r) xs)"
  shows "length (R n xs) \<le> n"
    and "sorted_wrt (\<lambda>x y. f y \<le> f x) (R n xs)"
    and "prefix (filter (\<lambda>r. f r = k) (R n xs)) (filter (\<lambda>r. f r = k) xs)"
    and "mset (R n xs) \<subseteq># mset xs"
    and "x \<in> set (R n xs) \<Longrightarrow> y \<in># mset xs - mset (R n xs) \<Longrightarrow> f y \<le> f x"
proof -
  let ?s = "sort_key (\<lambda>r. - f r) xs"
  have srt: "sorted_wrt (\<lambda>x y. f y \<le> f x) ?s"
    using sorted_sort_key [of "\<lambda>r. - f r" xs] by (simp add: sorted_map)
  show "length (R n xs) \<le> n" unfolding R_def by simp
  have split: "?s = take n ?s @ drop n ?s" by simp
  from srt split have app: "sorted_wrt (\<lambda>x y. f y \<le> f x) (take n ?s @ drop n ?s)" by simp
  then show "sorted_wrt (\<lambda>x y. f y \<le> f x) (R n xs)"
    unfolding R_def sorted_wrt_append by blast
  have "filter (\<lambda>r. - f r = - k) ?s = filter (\<lambda>r. - f r = - k) xs"
    by (rule sort_key_stable)
  then have st: "filter (\<lambda>r. f r = k) ?s = filter (\<lambda>r. f r = k) xs" by simp
  have "prefix (filter (\<lambda>r. f r = k) (take n ?s)) (filter (\<lambda>r. f r = k) ?s)"
    by (rule filter_mono_prefix) (rule take_is_prefix)
  then show "prefix (filter (\<lambda>r. f r = k) (R n xs)) (filter (\<lambda>r. f r = k) xs)"
    unfolding R_def st .
  have "mset xs = mset ?s" by simp
  also have "\<dots> = mset (take n ?s @ drop n ?s)" by (simp only: append_take_drop_id)
  also have "\<dots> = mset (take n ?s) + mset (drop n ?s)" by (rule mset_append)
  finally have ms: "mset xs = mset (take n ?s) + mset (drop n ?s)" .
  then show "mset (R n xs) \<subseteq># mset xs" unfolding R_def by simp
  show "f y \<le> f x" if "x \<in> set (R n xs)" "y \<in># mset xs - mset (R n xs)"
  proof -
    from that(2) have "y \<in> set (drop n ?s)" unfolding R_def ms by simp
    with that(1) app show ?thesis unfolding R_def sorted_wrt_append by blast
  qed
qed

lemma rankCombo_sel:
  "combination (rankCombo b p c) = c"
  "gfrImprovement (rankCombo b p c) =
     round1 (gfr (simulateTreatment b p c
        \<lparr>adjHydration = hydrationLevel p, adjProteinIntake = proteinIntake p,
         adjSaltIntake = saltIntake p, adjWaterIntake = waterIntake p,
         adjExerciseLevel = exerciseLevel p\<rparr>) - gfr b)"
  "interactionCount (rankCombo b p c) = length (detectDrugInteractions c)"
  unfolding rankCombo_def Let_def defaultAdj_def by simp_all

text \<open>
  C4. \<open>rankTreatmentCombinations\<close> returns the empty list for an empty pool. The
  combinations it evaluates are exactly the sublists of the pool of length 1, 2 and 3
  (none of length 4), the single treatments first, then the pairs, then the triples,
  each in index order; the entry of a combination is computed from the simulation of
  that combination with the patient's own lifestyle values. The result is the first 10
  entries of the stable sort of these entries by descending score: at most 10 entries,
  in non-increasing order of score, entries of equal score in generation order.
\<close>

theorem rankTreatmentCombinations_spec:
  "rankTreatmentCombinations b p [] = []
   \<and> treatmentCombos av =
       filter (\<lambda>c. length c = 1) (subseqs av)
       @ filter (\<lambda>c. length c = 2) (subseqs av)
       @ filter (\<lambda>c. length c = 3) (subseqs av)
   \<and> rankTreatmentCombinations b p av =
       take 10 (sort_key (\<lambda>r. - score r) (map (rankCombo b p) (treatmentCombos av)))
   \<and> combination (rankCombo b p c) = c
   \<and> gfrImprovement (rankCombo b p c) =
       round1 (gfr (simulateTreatment b p c
          \<lparr>adjHydration = hydrationLevel p, adjProteinIntake = proteinIntake p,
           adjSaltIntake = saltIntake p, adjWaterIntake = waterIntake p,
           adjExerciseLevel = exerciseLevel p\<rparr>) - gfr b)
   \<and> length (rankTreatmentCombinations b p av) \<le> 10
   \<and> sorted_wrt (\<lambda>x y. score y \<le> score x) (rankTreatmentCombinations b p av)
   \<and> prefix (filter (\<lambda>r. score r = k) (rankTreatmentCombinations b p av))
            (filter (\<lambda>r. score r = k) (map (rankCombo b p) (treatmentCombos av)))
   \<and> mset (rankTreatmentCombinations b p av) \<subseteq># mset (map (rankCombo b p) (treatmentCombos av))
   \<and> (\<forall>x \<in> set (rankTreatmentCombinations b p av).
        \<forall>y \<in># mset (map (rankCombo b p) (treatmentCombos av))
                 - mset (rankTreatmentCombinations b p av). score y \<le> score x)"
proof -
  let ?all = "map (rankCombo b p) (treatmentCombos av)"
  let ?R = "rankTreatmentCombinations b p av"
  note R = rank_eq [of b p av]
  have empty: "rankTreatmentCombinations b p [] = []"
    by (simp add: rankTreatmentCombinations_def)
  have len: "length ?R \<le> 10"
    unfolding R by (rule take_sort_desc(1))
  have srt: "sorted_wrt (\<lambda>x y. score y \<le> score x) ?R"
    unfolding R by (rule take_sort_desc(2))
  have stable: "prefix (filter (\<lambda>r. score r = k) ?R) (filter (\<lambda>r. score r = k) ?all)"
    unfolding R by (rule take_sort_desc(3))
  have sub: "mset ?R \<subseteq># mset ?all"
    unfolding R by (rule take_sort_desc(4))
  have best: "\<forall>x \<in> set ?R. \<forall>y \<in># mset ?all - mset ?R. score y \<le> score x"
    unfolding R using take_sort_desc(5) [where f = score] by blast
  from empty treatmentCombos_subseqs [of av] R rankCombo_sel(1,2) [of b p c] len srt stable sub best
  show ?thesis by (intro conjI)
qed

theorem rankTreatmentCombinations_spec_witness:
  "treatmentCombos [mkTreatment ''1'' ''Lisinopril'', mkTreatment ''2'' ''Losartan'']
     = [[mkTreatment ''1'' ''Lisinopril''], [mkTreatment ''2'' ''Losartan''],
        [mkTreatment ''1'' ''Lisinopril'', mkTreatment ''2'' ''Losartan'']]
   \<and> length (rankTreatmentCombinations (calculateBaselineMetrics patientA) patientA
        [mkTreatment ''1'' ''Lisinopril'', mkTreatment ''2'' ''Losartan'']) = 3"
proof -
  let ?av = "[mkTreatment ''1'' ''Lisinopril'', mkTreatment ''2'' ''Losartan'']"
  let ?b = "calculateBaselineMetrics patientA"
  note spec = rankTreatmentCombinations_spec [of ?b patientA ?av "[]" 0]
  have c: "treatmentCombos ?av =
       filter (\<lambda>c. length c = 1) (subseqs ?av)
       @ filter (\<lambda>c. length c = 2) (subseqs ?av)
       @ filter (\<lambda>c. length c = 3) (subseqs ?av)"
    by (rule spec [THEN conjunct2, THEN conjunct1])
  have r: "rankTreatmentCombinations ?b patientA ?av =
       take 10 (sort_key (\<lambda>r. - score r) (map (rankCombo ?b patientA) (treatmentCombos ?av)))"
    by (rule spec [THEN conjunct2, THEN conjunct2, THEN conjunct1])
  have combos: "treatmentCombos ?av = [[mkTreatment ''1'' ''Lisinopril''],
      [mkTreatment ''2'' ''Losartan''],
      [mkTreatment ''1'' ''Lisinopril'', mkTreatment ''2'' ''Losartan'']]"
    unfolding c by (simp add: Let_def)
  have "length (rankTreatmentCombinations ?b patientA ?av) = 3"
    unfolding r combos by (simp only: length_take length_sort length_map list.size)
  with combos show ?thesis by (intro conjI)
qed

subsection \<open>The ranges of the scores\<close>

lemma patientB_stressReduction:
  "stressReduction (treatmentEffects patientB treatmentsB (defaultAdj patientB)) = - 2"
  by code_simp

lemma patientB_sim_akirisk:
  "akirisk (simulateTreatment (calculateBaselineMetrics patientB) patientB treatmentsB
      (defaultAdj patientB)) = 101"
  unfolding sim_akirisk patientB_akirisk patientB_stressReduction
  by (simp add: jsRound_eval)

lemma patientB_projection: "gfr (predictFutureMetrics (calculateBaselineMetrics patientB) 365) \<le> 1 / 2"
proof -
  have e: "exp (- (73 / 36 :: real)) \<le> 36 / 109"
    using exp_neg_bound [of "73 / 36"] by simp
  have lin: "E \<le> 36 / 109 \<Longrightarrow> G \<le> 42 / 10 \<Longrightarrow>
      G + (5 - 40) * 0.08 * (1 - E) * 2 \<le> (1 / 2 :: real)" for E G :: real
    by (simp add: field_simps)
  have "gfr (calculateBaselineMetrics patientB) + (5 - 40) * 0.08 * (1 - exp (- (365 / 30) / 6)) * 2
      \<le> 1 / 2"
    using lin [of "exp (- (365 / 30) / 6)"] e patientB_gfr(2) by simp
  then have "round1 (gfr (calculateBaselineMetrics patientB)
        + (5 - 40) * 0.08 * (1 - exp (- (365 / 30) / 6)) * 2) \<le> round1 (1 / 2)"
    by (rule round1_mono)
  also have "round1 (1 / 2) = 1 / 2" by (simp add: round1_def)
  finally show ?thesis by (simp only: predict_sel patientB_efficiency)
qed

text \<open>
  C1 fails on the code. For \<open>patientB\<close> the AKI risk of the baseline is 100. With
  the five treatments of \<open>treatmentsB\<close> (a diuretic and four NSAIDs) and the lifestyle
  unchanged, the four moderate interactions take 8 from the stress reduction and the
  diuretic adds 6, so the stress reduction is -2 and \<open>simulateTreatment\<close> returns the
  AKI risk \<open>round(100 + 0.6) = 101\<close>, above the range 0-100 the interface declares
  for the field. The baseline GFR of the patient is at least 3 and at most 4.2, the
  efficiency is 5, and \<open>predictFutureMetrics\<close>, which does not clamp the GFR,
  returns a GFR of at most 0.5 for 365 days ahead, below 3.
\<close>

theorem range_invariant_violated:
  "akirisk (calculateBaselineMetrics patientB) = 100
   \<and> akirisk (simulateTreatment (calculateBaselineMetrics patientB) patientB treatmentsB
        (defaultAdj patientB)) = 101
   \<and> 3 \<le> gfr (calculateBaselineMetrics patientB)
   \<and> gfr (predictFutureMetrics (calculateBaselineMetrics patientB) 365) \<le> 1 / 2"
  using patientB_akirisk patientB_sim_akirisk patientB_gfr(1) patientB_projection
  by (intro conjI)

end
